theory Spec2Isabelle
  imports Main
begin

section \<open>MediaDevicesManager: data model\<close>

text \<open>
  A shallow embedding of \<^verbatim>\<open>MediaDevicesManager\<close> (the first document of
  \<^verbatim>\<open>src/unnamed/part_000\<close>). The JavaScript object, the global
  \<^verbatim>\<open>BrowserStorage\<close>, the emitter's output and the calls issued to
  \<^verbatim>\<open>navigator.mediaDevices\<close> are fields of one record that every operation takes
  and returns.
\<close>

text \<open>A device as the manager holds it; \<open>fallbackLabel\<close> is \<open>None\<close> where the
  property is absent or \<^verbatim>\<open>undefined\<close>.\<close>

record device =
  deviceId :: string
  groupId :: string
  kind :: string
  label :: string
  fallbackLabel :: "string option"

text \<open>A JavaScript value as the attributes of the manager hold them.\<close>

datatype jsvalue = Undefined | Null | Str string | DeviceList "device list"

text \<open>JavaScript truthiness: \<^verbatim>\<open>if (value)\<close>. An array is an object, hence truthy.\<close>

fun truthy :: "jsvalue \<Rightarrow> bool" where
  "truthy Undefined = False"
| "truthy Null = False"
| "truthy (Str s) = (s \<noteq> [])"
| "truthy (DeviceList ds) = True"

text \<open>
  What \<^verbatim>\<open>BrowserStorage\<close> holds under a key. The store keeps text; the JSON text of
  a list of identifiers (\<^verbatim>\<open>JSON.stringify\<close> of a preference list) is kept as the
  list it denotes, and the text an array is coerced to as \<open>SArray\<close>.
\<close>

datatype stored = SText string | SList "string list" | SArray "device list"

type_synonym browser_storage = "string \<Rightarrow> stored option"

text \<open>Modelled from the spec: \<^verbatim>\<open>services/BrowserStorage.js\<close> is not among the
  sources. Section 6 of the specification gives it as a key-value store with
  \<^verbatim>\<open>get(key) -> string|null\<close>, \<^verbatim>\<open>set(key, value)\<close> and \<^verbatim>\<open>remove(key)\<close>.
\<close>

definition getItem :: "browser_storage \<Rightarrow> string \<Rightarrow> stored option" where
  "getItem st key = st key"

definition setItem :: "browser_storage \<Rightarrow> string \<Rightarrow> stored \<Rightarrow> browser_storage" where
  "setItem st key v = st(key \<mapsto> v)"

definition removeItem :: "browser_storage \<Rightarrow> string \<Rightarrow> browser_storage" where
  "removeItem st key = st(key := None)"

definition LOCAL_STORAGE_NULL_DEVICE_ID :: string where
  "LOCAL_STORAGE_NULL_DEVICE_ID = ''local-storage-null-device-id''"

text \<open>A media track handle: its identity, kind, what \<^verbatim>\<open>getSettings()\<close> returns and
  whether \<^verbatim>\<open>stop()\<close> has been called on it.\<close>

record track_settings =
  settingsDeviceId :: "string option"

record track =
  trackId :: nat
  trackKind :: string
  getSettings :: "track_settings option"
  stopped :: bool

text \<open>An error object, \<^verbatim>\<open>name\<close> and \<^verbatim>\<open>message\<close>.\<close>

record dom_error =
  errorName :: string
  errorMessage :: string

text \<open>
  The manager and the world it acts on. \<open>devices\<close>, \<open>audioInputId\<close> and
  \<open>videoInputId\<close> are \<^verbatim>\<open>this.attributes\<close>; \<open>otherAttributes\<close> holds the keys
  that \<^verbatim>\<open>set\<close> adds beside them. \<open>knownDevices\<close> is the object
  \<^verbatim>\<open>this._knownDevices\<close> as its entries in insertion order.
  \<open>pendingEnumerateDevicesPromise\<close> is \<open>None\<close> for \<^verbatim>\<open>null\<close> and otherwise
  names the enumeration whose promise it holds. The last five fields are the world:
  the store, the notifications given to \<^verbatim>\<open>_trigger\<close>, the number of
  \<^verbatim>\<open>enumerateDevices()\<close> calls issued, the enumerations issued and not yet settled,
  and the number of \<^verbatim>\<open>navigator.mediaDevices.getUserMedia\<close> calls issued.
\<close>

record manager =
  devices :: "device list"
  audioInputId :: jsvalue
  videoInputId :: jsvalue
  otherAttributes :: "string \<Rightarrow> jsvalue"
  enabledCount :: int
  knownDevices :: "(string \<times> device) list"
  tracks :: "track list"
  pendingEnumerateDevicesPromise :: "nat option"
  preferenceAudioInputList :: "string list"
  preferenceVideoInputList :: "string list"
  browserStorage :: browser_storage
  triggered :: "(string \<times> jsvalue) list"
  enumerateDevicesCalls :: nat
  enumerationsInFlight :: "nat list"
  getUserMediaCalls :: nat

section \<open>Attribute access and persistence\<close>

text \<open>Modelled from the spec: \<^verbatim>\<open>EmitterMixin.js\<close> is not among the sources;
  \<^verbatim>\<open>_trigger(name, [value])\<close> is the change notification of Section 6, kept as a log.\<close>

definition trigger :: "string \<Rightarrow> jsvalue \<Rightarrow> manager \<Rightarrow> manager" where
  "trigger name v m = m\<lparr>triggered := triggered m @ [(name, v)]\<rparr>"

text \<open>\<^verbatim>\<open>this.attributes[key]\<close>.\<close>

definition get :: "manager \<Rightarrow> string \<Rightarrow> jsvalue" where
  "get m key =
     (if key = ''devices'' then DeviceList (devices m)
      else if key = ''audioInputId'' then audioInputId m
      else if key = ''videoInputId'' then videoInputId m
      else otherAttributes m key)"

text \<open>
  \<^verbatim>\<open>this.attributes[key] = value\<close>. The field \<open>devices\<close> is typed: a value that
  is not an array cannot be held there and is outside the model (the field is then kept).
\<close>

definition assignAttribute :: "string \<Rightarrow> jsvalue \<Rightarrow> manager \<Rightarrow> manager" where
  "assignAttribute key v m =
     (if key = ''devices'' then (case v of DeviceList ds \<Rightarrow> m\<lparr>devices := ds\<rparr> | _ \<Rightarrow> m)
      else if key = ''audioInputId'' then m\<lparr>audioInputId := v\<rparr>
      else if key = ''videoInputId'' then m\<lparr>videoInputId := v\<rparr>
      else m\<lparr>otherAttributes := (otherAttributes m)(key := v)\<rparr>)"

text \<open>The text the store receives for a truthy value.\<close>

fun storedOf :: "jsvalue \<Rightarrow> stored" where
  "storedOf (Str s) = SText s"
| "storedOf (DeviceList ds) = SArray ds"
| "storedOf Undefined = SText ''undefined''"
| "storedOf Null = SText ''null''"

definition storeDeviceId :: "string \<Rightarrow> jsvalue \<Rightarrow> browser_storage \<Rightarrow> browser_storage" where
  "storeDeviceId key v st =
     (if key \<noteq> ''audioInputId'' \<and> key \<noteq> ''videoInputId'' then st
      else
        let value = (if v = Null then Str LOCAL_STORAGE_NULL_DEVICE_ID else v) in
        if truthy value then setItem st key (storedOf value) else removeItem st key)"

definition set_attribute :: "string \<Rightarrow> jsvalue \<Rightarrow> manager \<Rightarrow> manager" where
  "set_attribute key v m =
     (let m1 = assignAttribute key v m;
          m2 = trigger (''change:'' @ key) v m1
      in m2\<lparr>browserStorage := storeDeviceId key v (browserStorage m2)\<rparr>)"

text \<open>
  What \<^verbatim>\<open>JSON.parse\<close> returns for a text: a list of identifiers or another JSON
  value; it throws a SyntaxError on a text that is not JSON. \<^verbatim>\<open>JSON\<close> belongs to
  the language, so the parser is a parameter (\<open>None\<close> is the throw).
\<close>

datatype json = JsonList "string list" | JsonOther

datatype error = SyntaxError

text \<open>
  The preference list that the constructor reads from a stored entry (lines 34--38):
  the empty list where the key is absent, else \<^verbatim>\<open>JSON.parse\<close> of the text. The text
  that \<^verbatim>\<open>JSON.stringify\<close> made of a list parses to that list; the text that an
  array of devices was coerced to is not JSON. The field of the manager is typed: a
  JSON value that is not a list of identifiers cannot be held there and the field is
  then empty (what the helpers make of such a value is not specified); the constructor
  returns a manager all the same.
\<close>

fun parsePreferences :: "(string \<Rightarrow> json option) \<Rightarrow> stored option \<Rightarrow> error + string list" where
  "parsePreferences parse None = Inr []"
| "parsePreferences parse (Some (SList l)) = Inr l"
| "parsePreferences parse (Some (SText s)) =
     (case parse s of
        None \<Rightarrow> Inl SyntaxError
      | Some (JsonList l) \<Rightarrow> Inr l
      | Some JsonOther \<Rightarrow> Inr [])"
| "parsePreferences parse (Some (SArray ds)) = Inl SyntaxError"

text \<open>
  The constructor, up to the call of \<^verbatim>\<open>requestInitialPermissions\<close> (which only
  issues asynchronous hardware requests).
\<close>

definition managerWith :: "browser_storage \<Rightarrow> string list \<Rightarrow> string list \<Rightarrow> manager" where
  "managerWith st audioPrefs videoPrefs =
     \<lparr> devices = [],
       audioInputId =
         (if getItem st ''audioInputId'' = Some (SText LOCAL_STORAGE_NULL_DEVICE_ID)
          then Null else Undefined),
       videoInputId =
         (if getItem st ''videoInputId'' = Some (SText LOCAL_STORAGE_NULL_DEVICE_ID)
          then Null else Undefined),
       otherAttributes = (\<lambda>_. Undefined),
       enabledCount = 0,
       knownDevices = [],
       tracks = [],
       pendingEnumerateDevicesPromise = None,
       preferenceAudioInputList = audioPrefs,
       preferenceVideoInputList = videoPrefs,
       browserStorage = st,
       triggered = [],
       enumerateDevicesCalls = 0,
       enumerationsInFlight = [],
       getUserMediaCalls = 0 \<rparr>"

definition MediaDevicesManager :: "(string \<Rightarrow> json option) \<Rightarrow> browser_storage \<Rightarrow> error + manager" where
  "MediaDevicesManager parse st =
     (case parsePreferences parse (getItem st ''audioInputPreferences'') of
        Inl e \<Rightarrow> Inl e
      | Inr audioPrefs \<Rightarrow>
     (case parsePreferences parse (getItem st ''videoInputPreferences'') of
        Inl e \<Rightarrow> Inl e
      | Inr videoPrefs \<Rightarrow> Inr (managerWith st audioPrefs videoPrefs)))"

text \<open>The manager a first session starts with: nothing stored yet.\<close>

definition freshManager :: manager where
  "freshManager = managerWith (\<lambda>_. None) [] []"

section \<open>Preference helpers\<close>

text \<open>\<^verbatim>\<open>a.deviceId === b.deviceId && a.kind === b.kind\<close>, the identity test of every
  \<^verbatim>\<open>find\<close> and \<^verbatim>\<open>filter\<close> of the diff.\<close>

definition sameDevice :: "device \<Rightarrow> device \<Rightarrow> bool" where
  "sameDevice a b = (deviceId a = deviceId b \<and> kind a = kind b)"

text \<open>Modelled from the spec: \<^verbatim>\<open>getFirstAvailableMediaDevice\<close> of
  \<^verbatim>\<open>services/mediaDevicePreferences.ts\<close> is not among the sources. Section 4.1, step 5:
  ``first device identifier in the kind's preference list that exists in \<open>F\<close>''; a
  preference list is an ordered sequence of device identifiers (Section 3). \<open>None\<close> is
  \<^verbatim>\<open>undefined\<close>.
\<close>

definition getFirstAvailableMediaDevice :: "device list \<Rightarrow> string list \<Rightarrow> string option" where
  "getFirstAvailableMediaDevice ds inputList =
     find (\<lambda>i. list_ex (\<lambda>d. deviceId d = i) ds) inputList"

text \<open>Modelled from the spec: \<^verbatim>\<open>populateMediaDevicesPreferences\<close> of the same absent
  file. Section 4.2: ``for each device kind with a preference list, append any device
  identifier present in \<open>freshDevices\<close> but absent from the list (new hardware ranked
  lowest by default); returns whether either list changed''. A list that did not
  change is returned as \<open>None\<close> (the falsy value the caller tests).
\<close>

fun appendMissing :: "string list \<Rightarrow> string list \<Rightarrow> string list" where
  "appendMissing inputList [] = inputList"
| "appendMissing inputList (i # ids) =
     appendMissing (if i \<in> set inputList then inputList else inputList @ [i]) ids"

definition populateKind :: "string \<Rightarrow> device list \<Rightarrow> string list \<Rightarrow> string list option" where
  "populateKind k ds inputList =
     (let new = appendMissing inputList (map deviceId (filter (\<lambda>d. kind d = k) ds))
      in if new = inputList then None else Some new)"

definition populateMediaDevicesPreferences ::
  "device list \<Rightarrow> string list \<Rightarrow> string list \<Rightarrow> string list option \<times> string list option" where
  "populateMediaDevicesPreferences ds audioInputList videoInputList =
     (populateKind ''audioinput'' ds audioInputList, populateKind ''videoinput'' ds videoInputList)"

section \<open>Device registry and diff engine\<close>

text \<open>Decimal rendering of the number put into a fallback label.\<close>

definition digitChar :: "nat \<Rightarrow> char" where
  "digitChar n = char_of (48 + n)"

function showNat :: "nat \<Rightarrow> string" where
  "showNat n = (if n < 10 then [digitChar n] else showNat (n div 10) @ [digitChar (n mod 10)])"
  by pat_completeness auto
termination
  by (relation "measure id") auto

text \<open>Modelled from the spec: \<^verbatim>\<open>t\<close> of \<^verbatim>\<open>@nextcloud/l10n\<close> is the localisation
  (out of scope in Section 1); Section 4.3 renders the label as ``\<open>{Kind} {N}\<close>''
  and ``Default'', the untranslated texts of the source.
\<close>

definition t_number :: "string \<Rightarrow> nat \<Rightarrow> string" where
  "t_number kindName n = kindName @ '' '' @ showNat n"

definition knownDeviceKey :: "device \<Rightarrow> string" where
  "knownDeviceKey d = kind d @ ''-'' @ deviceId d"

text \<open>\<^verbatim>\<open>this._knownDevices[key] = d\<close>: an existing key keeps its place.\<close>

fun upsert :: "string \<Rightarrow> device \<Rightarrow> (string \<times> device) list \<Rightarrow> (string \<times> device) list" where
  "upsert k d [] = [(k, d)]"
| "upsert k d ((k', d') # rest) = (if k = k' then (k, d) # rest else (k', d') # upsert k d rest)"

text \<open>
  \<^verbatim>\<open>Object.values(this._knownDevices).filter(device => device.kind === k &&
  device.deviceId !== '').length\<close>
\<close>

definition knownCount :: "string \<Rightarrow> (string \<times> device) list \<Rightarrow> nat" where
  "knownCount k known = length (filter (\<lambda>d. kind d = k \<and> deviceId d \<noteq> []) (map snd known))"

text \<open>The label of a device that the cache does not know (the \<^verbatim>\<open>else\<close> branch of
  \<^verbatim>\<open>_addDevice\<close>); a kind other than the three leaves it \<^verbatim>\<open>undefined\<close>.\<close>

definition newFallbackLabel :: "(string \<times> device) list \<Rightarrow> device \<Rightarrow> string option" where
  "newFallbackLabel known d =
     (if deviceId d = ''default'' \<or> deviceId d = [] then Some ''Default''
      else if kind d = ''audioinput'' then
        Some (t_number ''Microphone'' (knownCount ''audioinput'' known + 1))
      else if kind d = ''videoinput'' then
        Some (t_number ''Camera'' (knownCount ''videoinput'' known + 1))
      else if kind d = ''audiooutput'' then
        Some (t_number ''Speaker'' (knownCount ''audiooutput'' known + 1))
      else None)"

text \<open>The object that \<^verbatim>\<open>_addDevice\<close> builds from the enumerated record.\<close>

definition addedRecord :: "(string \<times> device) list \<Rightarrow> device \<Rightarrow> device" where
  "addedRecord known addedDevice =
     (let d = \<lparr> deviceId = deviceId addedDevice, groupId = groupId addedDevice,
                kind = kind addedDevice, label = label addedDevice, fallbackLabel = None \<rparr>
      in case map_of known (knownDeviceKey d) of
           Some knownDevice \<Rightarrow>
             d\<lparr> fallbackLabel := fallbackLabel knownDevice,
                label := (if label d \<noteq> [] then label d else label knownDevice) \<rparr>
         | None \<Rightarrow> d\<lparr> fallbackLabel := newFallbackLabel known d \<rparr>)"

text \<open>
  The cache is held by value. In the source the object pushed to the device list is
  the one stored in the cache, so a later \<^verbatim>\<open>_updateDevice\<close> of that object shows in
  the cache as well: there the \<open>label\<close> and \<open>groupId\<close> of a cache entry can be
  newer than here. Within a pass no cache entry is read after such an update (an added
  device is never an updated one, and \<open>knownCount\<close> reads only \<open>kind\<close> and
  \<open>deviceId\<close>, which \<^verbatim>\<open>_updateDevice\<close> leaves as they are), and the statements
  below take the cache of the manager as it is given.
\<close>

definition addDevice :: "manager \<Rightarrow> device \<Rightarrow> manager" where
  "addDevice m addedDevice =
     (let d = addedRecord (knownDevices m) addedDevice
      in m\<lparr> knownDevices := upsert (knownDeviceKey d) d (knownDevices m),
            devices := devices m @ [d] \<rparr>)"

text \<open>\<^verbatim>\<open>splice(findIndex(...), 1)\<close>: the first match goes, if there is one.\<close>

fun removeFirst :: "('a \<Rightarrow> bool) \<Rightarrow> 'a list \<Rightarrow> 'a list" where
  "removeFirst P [] = []"
| "removeFirst P (x # xs) = (if P x then xs else x # removeFirst P xs)"

definition removeDevice :: "manager \<Rightarrow> device \<Rightarrow> manager" where
  "removeDevice m removedDevice =
     (let m1 = m\<lparr> devices := removeFirst (\<lambda>oldDevice. sameDevice oldDevice removedDevice) (devices m) \<rparr>
      in if kind removedDevice = ''audioinput'' \<and> Str (deviceId removedDevice) = audioInputId m1
         then m1\<lparr> audioInputId := Undefined \<rparr>
         else if kind removedDevice = ''videoinput'' \<and> Str (deviceId removedDevice) = videoInputId m1
         then m1\<lparr> videoInputId := Undefined \<rparr>
         else m1)"

text \<open>The assignments of \<^verbatim>\<open>_updateDevice\<close> to the old object.\<close>

definition refreshed :: "device \<Rightarrow> device \<Rightarrow> device" where
  "refreshed updatedDevice oldDevice =
     oldDevice\<lparr> label := (if label updatedDevice \<noteq> [] then label updatedDevice else label oldDevice),
                groupId := groupId updatedDevice,
                kind := kind updatedDevice \<rparr>"

fun updateFirst :: "('a \<Rightarrow> bool) \<Rightarrow> ('a \<Rightarrow> 'a) \<Rightarrow> 'a list \<Rightarrow> 'a list" where
  "updateFirst P f [] = []"
| "updateFirst P f (x # xs) = (if P x then f x # xs else x # updateFirst P f xs)"

text \<open>\<^verbatim>\<open>_updateDevice\<close>; \<open>None\<close> is the TypeError of writing to the \<^verbatim>\<open>undefined\<close>
  that \<^verbatim>\<open>find\<close> returns when no device of the list matches. Only the list is
  rewritten: the cache, held by value, keeps what \<^verbatim>\<open>_addDevice\<close> stored (see the
  note above).\<close>

definition updateDevice :: "manager \<Rightarrow> device \<Rightarrow> manager option" where
  "updateDevice m updatedDevice =
     (if list_ex (\<lambda>oldDevice. sameDevice oldDevice updatedDevice) (devices m)
      then Some (m\<lparr> devices := updateFirst (\<lambda>oldDevice. sameDevice oldDevice updatedDevice)
                                     (refreshed updatedDevice) (devices m) \<rparr>)
      else None)"

text \<open>\<^verbatim>\<open>updatedDevices.forEach(...)\<close>: the manager reached, and whether the loop
  ran to its end (\<open>False\<close>: a call threw).\<close>

fun updateEach :: "manager \<Rightarrow> device list \<Rightarrow> manager \<times> bool" where
  "updateEach m [] = (m, True)"
| "updateEach m (d # ds) =
     (case updateDevice m d of None \<Rightarrow> (m, False) | Some m' \<Rightarrow> updateEach m' ds)"

definition populatePreferences :: "manager \<Rightarrow> device list \<Rightarrow> manager" where
  "populatePreferences m ds =
     (let (newAudioInputList, newVideoInputList) =
            populateMediaDevicesPreferences ds (preferenceAudioInputList m) (preferenceVideoInputList m);
          m1 = (case newAudioInputList of
                  Some l \<Rightarrow> m\<lparr> preferenceAudioInputList := l,
                               browserStorage := setItem (browserStorage m) ''audioInputPreferences'' (SList l) \<rparr>
                | None \<Rightarrow> m)
      in case newVideoInputList of
           Some l \<Rightarrow> m1\<lparr> preferenceVideoInputList := l,
                         browserStorage := setItem (browserStorage m1) ''videoInputPreferences'' (SList l) \<rparr>
         | None \<Rightarrow> m1)"

text \<open>The value of a \<^verbatim>\<open>string | undefined\<close> result.\<close>

fun toJs :: "string option \<Rightarrow> jsvalue" where
  "toJs None = Undefined"
| "toJs (Some s) = Str s"

text \<open>
  \<^verbatim>\<open>getFirstAvailableMediaDevice(devices, list) || devices.find(device => device.kind
  === k)?.deviceId\<close>: an empty string on the left is falsy and gives way to the right.
\<close>

definition automaticDefault :: "string \<Rightarrow> device list \<Rightarrow> string list \<Rightarrow> jsvalue" where
  "automaticDefault k ds inputList =
     (if truthy (toJs (getFirstAvailableMediaDevice ds inputList))
      then toJs (getFirstAvailableMediaDevice ds inputList)
      else toJs (map_option deviceId (find (\<lambda>d. kind d = k) ds)))"

section \<open>Enumeration passes\<close>

text \<open>
  \<^verbatim>\<open>_updateDevices()\<close> up to the return of the call: it asks the hardware for an
  enumeration and keeps the promise. The enumeration gets the next free number.
\<close>

definition updateDevices :: "manager \<Rightarrow> manager" where
  "updateDevices m =
     (let e = enumerateDevicesCalls m
      in m\<lparr> enumerateDevicesCalls := e + 1,
            enumerationsInFlight := enumerationsInFlight m @ [e],
            pendingEnumerateDevicesPromise := Some e \<rparr>)"

text \<open>The three lists that the \<^verbatim>\<open>then\<close> callback computes before it changes
  anything, from the device list of the manager and the enumerated \<open>ds\<close>.\<close>

definition removedDevices :: "manager \<Rightarrow> device list \<Rightarrow> device list" where
  "removedDevices m ds =
     filter (\<lambda>oldDevice. \<not> list_ex (\<lambda>d. sameDevice oldDevice d) ds) (devices m)"

definition updatedDevices :: "manager \<Rightarrow> device list \<Rightarrow> device list" where
  "updatedDevices m ds =
     filter (\<lambda>d. list_ex (\<lambda>oldDevice. sameDevice d oldDevice) (devices m)) ds"

definition addedDevices :: "manager \<Rightarrow> device list \<Rightarrow> device list" where
  "addedDevices m ds =
     filter (\<lambda>d. \<not> list_ex (\<lambda>oldDevice. sameDevice d oldDevice) (devices m)) ds"

text \<open>
  The body of the \<^verbatim>\<open>then\<close> callback of \<^verbatim>\<open>_updateDevices\<close>, run with the enumerated
  \<open>ds\<close>, up to the last statement (which clears the marker). The second component
  is \<open>False\<close> when \<^verbatim>\<open>_updateDevice\<close> threw; the manager is then the one reached at
  the throw.
\<close>

definition processDevices :: "manager \<Rightarrow> device list \<Rightarrow> manager \<times> bool" where
  "processDevices m ds =
     (let previousAudioInputId = audioInputId m;
          previousVideoInputId = videoInputId m;
          previousFirstAvailableAudioInputId =
            getFirstAvailableMediaDevice (devices m) (preferenceAudioInputList m);
          previousFirstAvailableVideoInputId =
            getFirstAvailableMediaDevice (devices m) (preferenceVideoInputList m);
          m1 = foldl removeDevice m (removedDevices m ds);
          (m2, finished) = updateEach m1 (updatedDevices m ds)
      in if \<not> finished then (m2, False)
         else
           let m3 = foldl addDevice m2 (addedDevices m ds);
               m4 = populatePreferences m3 ds;
               m5 = (if audioInputId m4 = Undefined
                        \<or> audioInputId m4 = toJs previousFirstAvailableAudioInputId
                     then m4\<lparr> audioInputId :=
                            automaticDefault ''audioinput'' ds (preferenceAudioInputList m4) \<rparr>
                     else m4);
               m6 = (if videoInputId m5 = Undefined
                        \<or> videoInputId m5 = toJs previousFirstAvailableVideoInputId
                     then m5\<lparr> videoInputId :=
                            automaticDefault ''videoinput'' ds (preferenceVideoInputList m5) \<rparr>
                     else m5);
               m7 = (if previousAudioInputId \<noteq> audioInputId m6
                     then trigger ''change:audioInputId'' (audioInputId m6) m6 else m6);
               m8 = (if previousVideoInputId \<noteq> videoInputId m7
                     then trigger ''change:videoInputId'' (videoInputId m7) m7 else m7)
           in (m8, True))"

text \<open>
  Enumeration \<open>e\<close> resolves with \<open>ds\<close>: the \<^verbatim>\<open>then\<close> callback runs, and where it
  throws the \<^verbatim>\<open>catch\<close> callback follows; either way the marker is cleared last.
\<close>

definition updateDevicesResolved :: "manager \<Rightarrow> nat \<Rightarrow> device list \<Rightarrow> manager" where
  "updateDevicesResolved m e ds =
     (fst (processDevices m ds))
       \<lparr> enumerationsInFlight := removeAll e (enumerationsInFlight m),
         pendingEnumerateDevicesPromise := None \<rparr>"

text \<open>Enumeration \<open>e\<close> is rejected: the \<^verbatim>\<open>catch\<close> callback logs and clears the marker.\<close>

definition updateDevicesRejected :: "manager \<Rightarrow> nat \<Rightarrow> manager" where
  "updateDevicesRejected m e =
     m\<lparr> enumerationsInFlight := removeAll e (enumerationsInFlight m),
        pendingEnumerateDevicesPromise := None \<rparr>"

text \<open>
  \<^verbatim>\<open>isSupported()\<close> reads the environment only: whether \<^verbatim>\<open>navigator.mediaDevices\<close>
  offers \<^verbatim>\<open>getUserMedia\<close> and \<^verbatim>\<open>enumerateDevices\<close>.
\<close>

record media_devices =
  hasGetUserMedia :: bool
  hasEnumerateDevices :: bool

record navigator =
  mediaDevices :: "media_devices option"

definition isSupported :: "navigator option \<Rightarrow> bool" where
  "isSupported nav =
     (case nav of
        None \<Rightarrow> False
      | Some n \<Rightarrow>
          (case mediaDevices n of
             None \<Rightarrow> False
           | Some md \<Rightarrow> hasGetUserMedia md \<and> hasEnumerateDevices md))"

text \<open>\<^verbatim>\<open>enableDeviceEvents()\<close>; the listener it adds calls \<^verbatim>\<open>_updateDevices\<close> on each
  \<^verbatim>\<open>devicechange\<close>.\<close>

definition enableDeviceEvents :: "navigator option \<Rightarrow> manager \<Rightarrow> manager" where
  "enableDeviceEvents nav m =
     (if \<not> isSupported nav then m
      else updateDevices (m\<lparr> enabledCount := enabledCount m + 1 \<rparr>))"

section \<open>Notions used by the statements\<close>

text \<open>
  The selection of kind \<open>k\<close> as step 5 of a pass finds it: \<^verbatim>\<open>_removeDevice\<close> has
  reset it to \<^verbatim>\<open>undefined\<close> if a removed device of that kind carried the selected
  identifier.
\<close>

definition currentSelection :: "string \<Rightarrow> jsvalue \<Rightarrow> device list \<Rightarrow> jsvalue" where
  "currentSelection k sel removed =
     (if list_ex (\<lambda>r. kind r = k \<and> Str (deviceId r) = sel) removed then Undefined else sel)"

text \<open>
  The recomputed default in the words of the specification (Section 4.1, step 5): the
  first identifier of the preference list that exists in the fresh list, else the
  identifier of the first fresh device of the kind, else \<^verbatim>\<open>undefined\<close>.
\<close>

definition specifiedDefault :: "string \<Rightarrow> device list \<Rightarrow> string list \<Rightarrow> jsvalue" where
  "specifiedDefault k ds inputList =
     (case getFirstAvailableMediaDevice ds inputList of
        Some i \<Rightarrow> Str i
      | None \<Rightarrow> toJs (map_option deviceId (find (\<lambda>d. kind d = k) ds)))"

text \<open>A record as \<^verbatim>\<open>enumerateDevices()\<close> gives it: identifier, kind and label.\<close>

definition enumerated :: "string \<Rightarrow> string \<Rightarrow> string \<Rightarrow> device" where
  "enumerated i k l =
     \<lparr> deviceId = i, groupId = ''group'', kind = k, label = l, fallbackLabel = None \<rparr>"

text \<open>
  A manager constructed in a later session: an earlier one, without permission, has
  seen a microphone under the empty identifier and has stored it as a preference.
\<close>

definition returningManager :: manager where
  "returningManager = managerWith [''audioInputPreferences'' \<mapsto> SList [[]]] [[]] []"

text \<open>The microphone may be used and shows its identifier; the camera may not.\<close>

definition microphoneGranted :: "device list" where
  "microphoneGranted =
     [enumerated ''mic1'' ''audioinput'' ''Built-in microphone'',
      enumerated [] ''videoinput'' []]"

text \<open>The manager of a pass after steps 1 to 4: devices removed, updated and added,
  preferences populated.\<close>

definition populated :: "manager \<Rightarrow> device list \<Rightarrow> manager" where
  "populated m ds =
     populatePreferences
       (foldl addDevice
          (fst (updateEach (foldl removeDevice m (removedDevices m ds)) (updatedDevices m ds)))
          (addedDevices m ds))
       ds"

text \<open>Step 5 for one kind: the test on the current selection \<open>cur\<close> against
  \<open>prev\<close>, the first available identifier of the previous list (lines 127--128),
  and the value the field has afterwards.\<close>

definition recomputed :: "string \<Rightarrow> jsvalue \<Rightarrow> string option \<Rightarrow> device list \<Rightarrow> string list \<Rightarrow> jsvalue" where
  "recomputed k cur prev ds inputList =
     (if cur = Undefined \<or> cur = toJs prev then automaticDefault k ds inputList else cur)"

definition audioAfterPass :: "manager \<Rightarrow> device list \<Rightarrow> jsvalue" where
  "audioAfterPass m ds =
     recomputed ''audioinput'' (audioInputId (populated m ds))
       (getFirstAvailableMediaDevice (devices m) (preferenceAudioInputList m))
       ds (preferenceAudioInputList (populated m ds))"

definition videoAfterPass :: "manager \<Rightarrow> device list \<Rightarrow> jsvalue" where
  "videoAfterPass m ds =
     recomputed ''videoinput'' (videoInputId (populated m ds))
       (getFirstAvailableMediaDevice (devices m) (preferenceVideoInputList m))
       ds (preferenceVideoInputList (populated m ds))"

text \<open>
  What a pass makes of the selection \<open>sel\<close> of kind \<open>k\<close>, from the preference list
  before the pass (\<open>oldList\<close>) and after it (\<open>newList\<close>): recomputed exactly when
  the current value is \<^verbatim>\<open>undefined\<close> or is the first identifier of \<open>oldList\<close> that
  is present in the previous device list (the result of
  \<^verbatim>\<open>getFirstAvailableMediaDevice\<close> alone; the first device of the kind plays no part
  in this test). The recomputed value is the first identifier of \<open>newList\<close> present
  in the fresh list if that identifier is not empty, else the identifier of the first
  fresh device of the kind, else \<^verbatim>\<open>undefined\<close>.
\<close>

definition stickyDefault ::
  "string \<Rightarrow> jsvalue \<Rightarrow> string list \<Rightarrow> string list \<Rightarrow> manager \<Rightarrow> device list \<Rightarrow> jsvalue" where
  "stickyDefault k sel oldList newList m ds =
     (let cur = currentSelection k sel (removedDevices m ds);
          firstOfKind = toJs (map_option deviceId (find (\<lambda>d. kind d = k) ds))
      in if cur = Undefined \<or> cur = toJs (getFirstAvailableMediaDevice (devices m) oldList)
         then (case getFirstAvailableMediaDevice ds newList of
                 Some i \<Rightarrow> if i \<noteq> [] then Str i else firstOfKind
               | None \<Rightarrow> firstOfKind)
         else cur)"

text \<open>The same manager with both kinds disabled by the user.\<close>

definition disabledManager :: manager where
  "disabledManager = returningManager\<lparr> audioInputId := Null, videoInputId := Null \<rparr>"

text \<open>
  The number in the fallback label in the words of the specification (Section 4.3):
  the count of previously known devices of the kind that are not a sentinel
  (\<^verbatim>\<open>"default"\<close> or the empty identifier), plus one.
\<close>

definition specifiedNumber :: "string \<Rightarrow> (string \<times> device) list \<Rightarrow> nat" where
  "specifiedNumber k known =
     length (filter (\<lambda>d. kind d = k \<and> deviceId d \<noteq> [] \<and> deviceId d \<noteq> ''default'')
               (map snd known)) + 1"

text \<open>A first enumeration as a browser with a default entry gives it: the default
  microphone, then the one real microphone.\<close>

definition defaultAndMicrophone :: "device list" where
  "defaultAndMicrophone =
     [enumerated ''default'' ''audioinput'' [], enumerated ''mic1'' ''audioinput'' []]"





text \<open>Two microphones: one under its identifier, then one under the empty identifier.\<close>

definition emptyIdentifierLast :: "device list" where
  "emptyIdentifierLast =
     [enumerated ''mic1'' ''audioinput'' ''Built-in microphone'',
      enumerated [] ''audioinput'' []]"

text \<open>A parser that knows the three JSON literals and the empty list, and a manager
  over a store whose audio preferences are the text \<^verbatim>\<open>true\<close>.\<close>

definition literalParser :: "string \<Rightarrow> json option" where
  "literalParser s =
     (if s = ''true'' \<or> s = ''false'' \<or> s = ''null'' then Some JsonOther
      else if s = ''[]'' then Some (JsonList [])
      else None)"

definition oddPreferences :: manager where
  "oddPreferences = managerWith [''audioInputPreferences'' \<mapsto> SText ''true''] [] []"

text \<open>A headset is plugged in and is listed first.\<close>

definition headsetFirst :: "device list" where
  "headsetFirst =
     [enumerated ''headset'' ''audioinput'' ''Headset'',
      enumerated ''mic1'' ''audioinput'' ''Built-in microphone'',
      enumerated [] ''videoinput'' []]"

text \<open>
  A selection that is the empty string is the first identifier of its preference list
  that is present in the device list. This holds of every constructed manager (its
  selections are \<^verbatim>\<open>undefined\<close> or \<^verbatim>\<open>null\<close>) and every pass keeps it.
\<close>

definition emptySelectionAvailable :: "jsvalue \<Rightarrow> device list \<Rightarrow> string list \<Rightarrow> bool" where
  "emptySelectionAvailable sel ds inputList =
     (sel = Str [] \<longrightarrow> getFirstAvailableMediaDevice ds inputList = Some [])"


section \<open>Stream acquisition\<close>

text \<open>
  The constraints object given to \<^verbatim>\<open>getUserMedia\<close>. A \<^verbatim>\<open>deviceId\<close> is a string or an
  object with \<^verbatim>\<open>exact\<close> and \<^verbatim>\<open>ideal\<close>; the constraint of a kind is absent
  (\<^verbatim>\<open>undefined\<close>), a boolean or an object, whose properties other than
  \<^verbatim>\<open>deviceId\<close> the manager never reads.
\<close>

datatype constrain_string = Plain string | Params (exact: jsvalue) (ideal: jsvalue)

record track_constraints =
  constraintDeviceId :: "constrain_string option"
  otherConstraints :: "(string \<times> string) list"

datatype kind_constraint = Absent | Boolean bool | Object track_constraints

record constraints =
  audio :: kind_constraint
  video :: kind_constraint

text \<open>\<^verbatim>\<open>if (constraints.audio)\<close>\<close>

fun requested :: "kind_constraint \<Rightarrow> bool" where
  "requested Absent = False"
| "requested (Boolean b) = b"
| "requested (Object obj) = True"

text \<open>\<^verbatim>\<open>constraints.audio.deviceId\<close>; a boolean has no such property.\<close>

fun deviceIdOf :: "kind_constraint \<Rightarrow> constrain_string option" where
  "deviceIdOf (Object obj) = constraintDeviceId obj"
| "deviceIdOf _ = None"

text \<open>Truthiness of a \<^verbatim>\<open>deviceId\<close>: an object always, a string unless empty.\<close>

fun specified :: "constrain_string option \<Rightarrow> bool" where
  "specified None = False"
| "specified (Some (Plain s)) = (s \<noteq> [])"
| "specified (Some (Params e i)) = True"

text \<open>
  One of the two blocks at the head of \<^verbatim>\<open>_getUserMediaInternal\<close> (lines 311--320 for
  audio, 322--331 for video), for the constraint \<open>c\<close> of a kind and the selection
  \<open>sel\<close> of that kind.
\<close>

definition resolveKind :: "jsvalue \<Rightarrow> kind_constraint \<Rightarrow> kind_constraint" where
  "resolveKind sel c =
     (if requested c \<and> \<not> specified (deviceIdOf c) then
        if truthy sel then
          let obj = (case c of Object obj \<Rightarrow> obj
                     | _ \<Rightarrow> \<lparr> constraintDeviceId = None, otherConstraints = [] \<rparr>)
          in Object (obj\<lparr> constraintDeviceId := Some (Params sel Undefined) \<rparr>)
        else if sel = Null then Boolean False
        else c
      else c)"

definition resolveConstraints :: "manager \<Rightarrow> constraints \<Rightarrow> constraints" where
  "resolveConstraints m c =
     c\<lparr> audio := resolveKind (audioInputId m) (audio c),
        video := resolveKind (videoInputId m) (video c) \<rparr>"

text \<open>
  \<^verbatim>\<open>deviceId.exact || deviceId.ideal || deviceId\<close>. \<open>None\<close> stands for the
  constraint object itself, which no \<^verbatim>\<open>settings.deviceId\<close> is identical to.
\<close>

fun constraintsDeviceId :: "constrain_string \<Rightarrow> jsvalue option" where
  "constraintsDeviceId (Plain s) = Some (Str s)"
| "constraintsDeviceId (Params e i) =
     (if truthy e then Some e else if truthy i then Some i else None)"

text \<open>\<^verbatim>\<open>settings && settings.deviceId !== constraintsDeviceId\<close>\<close>

definition differsFrom :: "track_settings option \<Rightarrow> jsvalue option \<Rightarrow> bool" where
  "differsFrom settings wanted =
     (case settings of
        None \<Rightarrow> False
      | Some s \<Rightarrow> (case wanted of None \<Rightarrow> True | Some v \<Rightarrow> toJs (settingsDeviceId s) \<noteq> v))"

text \<open>Whether one of the two \<^verbatim>\<open>if\<close> blocks of \<^verbatim>\<open>_stopIncompatibleTracks\<close> stops
  the track: the block of kind \<open>k\<close> with the constraint \<open>c\<close> of that kind.\<close>

definition incompatible :: "string \<Rightarrow> kind_constraint \<Rightarrow> track \<Rightarrow> bool" where
  "incompatible k c t =
     (requested c \<and>
      (case deviceIdOf c of
         None \<Rightarrow> False
       | Some d \<Rightarrow> specified (Some d) \<and> trackKind t = k \<and>
                   differsFrom (getSettings t) (constraintsDeviceId d)))"

text \<open>
  The listener that \<^verbatim>\<open>_registerTrack\<close> adds for \<^verbatim>\<open>ended\<close>: the track leaves
  \<^verbatim>\<open>_tracks\<close>. Every entry of the list has its own listener, so all entries of the
  track go. Tracks are compared by identity.
\<close>

definition trackEnded :: "track \<Rightarrow> track list \<Rightarrow> track list" where
  "trackEnded t ts = filter (\<lambda>x. trackId x \<noteq> trackId t) ts"

text \<open>
  \<^verbatim>\<open>track.stop()\<close>. The track is an object of the browser: the call ends it, and
  whether it also dispatches \<^verbatim>\<open>ended\<close> to the listeners is a property of the
  environment (\<open>dispatchesEnded\<close>; a plain \<^verbatim>\<open>MediaStreamTrack\<close> does not).
\<close>

definition stopTrack :: "bool \<Rightarrow> track \<Rightarrow> track list \<Rightarrow> track list" where
  "stopTrack dispatchesEnded t ts =
     (let ts1 = map (\<lambda>x. if trackId x = trackId t then x\<lparr> stopped := True \<rparr> else x) ts
      in if dispatchesEnded \<and> \<not> stopped t then trackEnded t ts1 else ts1)"

text \<open>The callback of the \<^verbatim>\<open>forEach\<close> in \<^verbatim>\<open>_stopIncompatibleTracks\<close>.\<close>

definition stopIfIncompatible :: "bool \<Rightarrow> constraints \<Rightarrow> track \<Rightarrow> track list \<Rightarrow> track list" where
  "stopIfIncompatible dispatchesEnded c t ts =
     (let ts1 = (if incompatible ''audio'' (audio c) t then stopTrack dispatchesEnded t ts else ts)
      in if incompatible ''video'' (video c) t then stopTrack dispatchesEnded t ts1 else ts1)"

text \<open>
  \<^verbatim>\<open>this._tracks.forEach(callback)\<close>: the indices below the length at the start are
  visited in order, each on the list as it is at that moment, and an index that the
  list no longer has is passed over.
\<close>

function forEachTrack ::
  "(track \<Rightarrow> track list \<Rightarrow> track list) \<Rightarrow> nat \<Rightarrow> nat \<Rightarrow> track list \<Rightarrow> track list" where
  "forEachTrack f k len ts =
     (if k < len
      then forEachTrack f (k + 1) len (if k < length ts then f (ts ! k) ts else ts)
      else ts)"
  by pat_completeness auto
termination
  by (relation "measure (\<lambda>(f, k, len, ts). len - k)") auto

declare forEachTrack.simps [simp del]

definition stopIncompatibleTracks :: "bool \<Rightarrow> constraints \<Rightarrow> track list \<Rightarrow> track list" where
  "stopIncompatibleTracks dispatchesEnded c ts =
     forEachTrack (stopIfIncompatible dispatchesEnded c) 0 (length ts) ts"

text \<open>A stream is its tracks.\<close>

record stream =
  getTracks :: "track list"

definition getAudioTracks :: "stream \<Rightarrow> track list" where
  "getAudioTracks s = filter (\<lambda>t. trackKind t = ''audio'') (getTracks s)"

definition getVideoTracks :: "stream \<Rightarrow> track list" where
  "getVideoTracks s = filter (\<lambda>t. trackKind t = ''video'') (getTracks s)"

text \<open>\<^verbatim>\<open>_registerTrack\<close>: the push; the two listeners it adds are \<open>trackEnded\<close> and,
  for \<^verbatim>\<open>cloned\<close>, \<open>registerTrack\<close> again with the clone.\<close>

definition registerTrack :: "manager \<Rightarrow> track \<Rightarrow> manager" where
  "registerTrack m t = m\<lparr> tracks := tracks m @ [t] \<rparr>"

definition registerStream :: "manager \<Rightarrow> stream \<Rightarrow> manager" where
  "registerStream m s = foldl registerTrack m (getTracks s)"

text \<open>One of the two blocks of \<^verbatim>\<open>_updateSelectedDevicesFromGetUserMediaResult\<close>, for the
  attribute \<open>key\<close> with value \<open>sel\<close> and the tracks of its kind.\<close>

definition updateSelectedDevice :: "string \<Rightarrow> jsvalue \<Rightarrow> track list \<Rightarrow> manager \<Rightarrow> manager" where
  "updateSelectedDevice key sel kindTracks m =
     (if truthy sel then
        (case (case kindTracks of [] \<Rightarrow> None | t # _ \<Rightarrow> getSettings t) of
           None \<Rightarrow> m
         | Some settings \<Rightarrow>
             (case settingsDeviceId settings of
                None \<Rightarrow> m
              | Some i \<Rightarrow> if i \<noteq> [] \<and> sel \<noteq> Str i then set_attribute key (Str i) m else m))
      else m)"

definition updateSelectedDevicesFromGetUserMediaResult :: "manager \<Rightarrow> stream \<Rightarrow> manager" where
  "updateSelectedDevicesFromGetUserMediaResult m s =
     (let m1 = updateSelectedDevice ''audioInputId'' (audioInputId m) (getAudioTracks s) m
      in updateSelectedDevice ''videoInputId'' (videoInputId m1) (getVideoTracks s) m1)"

text \<open>
  The environment of an acquisition: the \<^verbatim>\<open>navigator\<close>, whether \<^verbatim>\<open>stop()\<close>
  dispatches \<^verbatim>\<open>ended\<close>, and the answer of the hardware to its \<open>n\<close>-th
  \<^verbatim>\<open>getUserMedia\<close> request, a rejection with an error or a stream.
\<close>

record environment =
  navigator :: "navigator option"
  dispatchesEnded :: bool
  hardware :: "nat \<Rightarrow> constraints \<Rightarrow> dom_error + stream"

text \<open>
  \<^verbatim>\<open>_getUserMediaInternal\<close>, from the call to the settling of the promise it returns:
  the outcome for the caller, the manager, and the constraints object, which the
  function has changed in place.
\<close>

definition getUserMediaInternal ::
  "environment \<Rightarrow> manager \<Rightarrow> constraints \<Rightarrow> (dom_error + stream) \<times> manager \<times> constraints" where
  "getUserMediaInternal env m c =
     (let c1 = resolveConstraints m c;
          m1 = m\<lparr> tracks := stopIncompatibleTracks (dispatchesEnded env) c1 (tracks m) \<rparr>;
          m2 = m1\<lparr> getUserMediaCalls := getUserMediaCalls m1 + 1 \<rparr>
      in case hardware env (getUserMediaCalls m1) c1 of
           Inr s \<Rightarrow>
             (let m3 = registerStream m2 s;
                  m4 = updateSelectedDevicesFromGetUserMediaResult m3 s
              in (Inr s, updateDevices m4, c1))
         | Inl error \<Rightarrow> (Inl error, updateDevices m2, c1))"

definition notSupportedError :: dom_error where
  "notSupportedError =
     \<lparr> errorName = ''NotSupportedError'', errorMessage = ''MediaDevicesManager is not supported'' \<rparr>"

text \<open>
  \<^verbatim>\<open>getUserMedia\<close>, from the call to the settling of the promise it returns. Where an
  enumeration is pending, \<open>settled\<close> is what it settles with: the devices, or
  \<open>None\<close> for a rejection. Its promise is the one made by \<^verbatim>\<open>_updateDevices\<close>, which
  ends in a \<^verbatim>\<open>catch\<close> and so always fulfils; the \<^verbatim>\<open>catch\<close> of \<^verbatim>\<open>getUserMedia\<close>
  therefore runs exactly when the acquisition started by its \<^verbatim>\<open>then\<close> is rejected.
\<close>

definition getUserMedia ::
  "environment \<Rightarrow> device list option \<Rightarrow> manager \<Rightarrow> constraints \<Rightarrow> (dom_error + stream) \<times> manager" where
  "getUserMedia env settled m c =
     (if \<not> isSupported (navigator env) then (Inl notSupportedError, m)
      else
        case pendingEnumerateDevicesPromise m of
          None \<Rightarrow> (let (r, m1, c1) = getUserMediaInternal env m c in (r, m1))
        | Some e \<Rightarrow>
            (let m0 = (case settled of
                         Some ds \<Rightarrow> updateDevicesResolved m e ds
                       | None \<Rightarrow> updateDevicesRejected m e);
                 (r1, m1, c1) = getUserMediaInternal env m0 c
             in case r1 of
                  Inr s \<Rightarrow> (Inr s, m1)
                | Inl error \<Rightarrow> (let (r2, m2, c2) = getUserMediaInternal env m1 c1 in (r2, m2))))"

text \<open>Whether \<^verbatim>\<open>_stopIncompatibleTracks\<close> calls \<^verbatim>\<open>stop()\<close> on a track it visits.\<close>

definition hits :: "constraints \<Rightarrow> track \<Rightarrow> bool" where
  "hits c t = (incompatible ''audio'' (audio c) t \<or> incompatible ''video'' (video c) t)"

section \<open>Scenarios of acquisition\<close>

text \<open>A live track of kind \<open>k\<close> bound to the device \<open>i\<close>.\<close>

definition liveTrack :: "nat \<Rightarrow> string \<Rightarrow> string \<Rightarrow> track" where
  "liveTrack n k i =
     \<lparr> trackId = n, trackKind = k,
       getSettings = Some \<lparr> settingsDeviceId = Some i \<rparr>, stopped = False \<rparr>"

text \<open>\<^verbatim>\<open>{video: {deviceId: {exact: "cam2"}}}\<close>\<close>

definition exactCam2 :: constraints where
  "exactCam2 =
     \<lparr> audio = Absent,
       video = Object \<lparr> constraintDeviceId = Some (Params (Str ''cam2'') Undefined),
                        otherConstraints = [] \<rparr> \<rparr>"

definition supportedNavigator :: "navigator option" where
  "supportedNavigator =
     Some \<lparr> mediaDevices = Some \<lparr> hasGetUserMedia = True, hasEnumerateDevices = True \<rparr> \<rparr>"

text \<open>Hardware that answers every request with one new track of the second camera;
  the two environments differ in what \<^verbatim>\<open>stop()\<close> does.\<close>

definition cam2Hardware :: "bool \<Rightarrow> environment" where
  "cam2Hardware dispatches =
     \<lparr> navigator = supportedNavigator, dispatchesEnded = dispatches,
       hardware = (\<lambda>n c. Inr \<lparr> getTracks = [liveTrack (10 + n) ''video'' ''cam2''] \<rparr>) \<rparr>"

text \<open>The active track set of the conflict scenario (Section 8), and the same with a
  second track of the first camera, as a clone of the first gives it.\<close>

definition oneCam1Track :: manager where
  "oneCam1Track = freshManager\<lparr> tracks := [liveTrack 1 ''video'' ''cam1''] \<rparr>"

definition twoCam1Tracks :: manager where
  "twoCam1Tracks =
     freshManager\<lparr> tracks := [liveTrack 1 ''video'' ''cam1'', liveTrack 2 ''video'' ''cam1''] \<rparr>"

text \<open>Hardware whose camera is busy at the first request and free at the second.\<close>

definition busyError :: dom_error where
  "busyError = \<lparr> errorName = ''NotReadableError'', errorMessage = ''Device in use'' \<rparr>"

definition busyOnce :: environment where
  "busyOnce =
     \<lparr> navigator = supportedNavigator, dispatchesEnded = False,
       hardware = (\<lambda>n c. if n = 0 then Inl busyError
                          else Inr \<lparr> getTracks = [liveTrack (10 + n) ''video'' ''cam2''] \<rparr>) \<rparr>"

text \<open>An environment without \<^verbatim>\<open>navigator.mediaDevices\<close>.\<close>

definition unsupported :: environment where
  "unsupported =
     \<lparr> navigator = Some \<lparr> mediaDevices = None \<rparr>, dispatchesEnded = False,
       hardware = (\<lambda>n c. Inl busyError) \<rparr>"

text \<open>\<^verbatim>\<open>{audio: {deviceId: "mic2"}}\<close> and \<^verbatim>\<open>{video: true}\<close>\<close>

definition plainMic2 :: constraints where
  "plainMic2 =
     \<lparr> audio = Object \<lparr> constraintDeviceId = Some (Plain ''mic2''), otherConstraints = [] \<rparr>,
       video = Absent \<rparr>"

definition anyVideo :: constraints where
  "anyVideo = \<lparr> audio = Absent, video = Boolean True \<rparr>"

text \<open>\<^verbatim>\<open>{video: {echoCancellation: true}}\<close>: an object without a device identifier.\<close>

definition echoOnly :: constraints where
  "echoOnly =
     \<lparr> audio = Absent,
       video = Object \<lparr> constraintDeviceId = None,
                        otherConstraints = [(''echoCancellation'', ''true'')] \<rparr> \<rparr>"

section \<open>Persistence of the selection\<close>

lemma browserStorage_set_attribute:
  "browserStorage (set_attribute key v m) = storeDeviceId key v (browserStorage m)"
  by (simp add: set_attribute_def assignAttribute_def trigger_def Let_def split: jsvalue.splits)

lemma triggered_set_attribute:
  "triggered (set_attribute key v m) = triggered m @ [(''change:'' @ key, v)]"
  by (simp add: set_attribute_def assignAttribute_def trigger_def Let_def split: jsvalue.splits)

text \<open>
  \<^bold>\<open>C10.\<close> \<^verbatim>\<open>set(key, value)\<close> with a key other than \<^verbatim>\<open>audioInputId\<close> and
  \<^verbatim>\<open>videoInputId\<close> (so also \<^verbatim>\<open>devices\<close>) leaves the persistent store as it was and
  still fires \<^verbatim>\<open>change:key\<close> with the value; with one of the two selection keys and
  the value \<^verbatim>\<open>undefined\<close> or the empty string it removes the persisted entry of
  that key and writes nothing.
\<close>

theorem set_persistence_frame:
  "(key \<noteq> ''audioInputId'' \<and> key \<noteq> ''videoInputId'' \<longrightarrow>
      browserStorage (set_attribute key v m) = browserStorage m \<and>
      triggered (set_attribute key v m) = triggered m @ [(''change:'' @ key, v)]) \<and>
   ((key = ''audioInputId'' \<or> key = ''videoInputId'') \<and> (v = Undefined \<or> v = Str []) \<longrightarrow>
      browserStorage (set_attribute key v m) = removeItem (browserStorage m) key \<and>
      getItem (browserStorage (set_attribute key v m)) key = None)"
  by (auto simp: browserStorage_set_attribute triggered_set_attribute storeDeviceId_def
      removeItem_def getItem_def Let_def)

theorem set_persistence_frame_witness:
  "browserStorage (set_attribute ''devices'' (DeviceList []) freshManager)
     = browserStorage freshManager \<and>
   triggered (set_attribute ''devices'' (DeviceList []) freshManager)
     = triggered freshManager @ [(''change:devices'', DeviceList [])] \<and>
   getItem (browserStorage (set_attribute ''audioInputId'' (Str ''mic1'') freshManager))
     ''audioInputId'' = Some (SText ''mic1'') \<and>
   getItem (browserStorage (set_attribute ''audioInputId'' (Str [])
      (set_attribute ''audioInputId'' (Str ''mic1'') freshManager))) ''audioInputId'' = None"
proof -
  have k: "''devices'' \<noteq> ''audioInputId'' \<and> ''devices'' \<noteq> ''videoInputId''"
    by simp
  have stored: "getItem (browserStorage (set_attribute ''audioInputId'' (Str ''mic1'') freshManager))
     ''audioInputId'' = Some (SText ''mic1'')"
    by code_simp
  have other: "browserStorage (set_attribute ''devices'' (DeviceList []) freshManager)
        = browserStorage freshManager \<and>
      triggered (set_attribute ''devices'' (DeviceList []) freshManager)
        = triggered freshManager @ [(''change:'' @ ''devices'', DeviceList [])]"
    by (rule set_persistence_frame [of "''devices''" "DeviceList []" freshManager,
          THEN conjunct1, THEN mp]) (rule k)
  have removed: "getItem (browserStorage (set_attribute ''audioInputId'' (Str [])
      (set_attribute ''audioInputId'' (Str ''mic1'') freshManager))) ''audioInputId'' = None"
    by (rule set_persistence_frame [of "''audioInputId''" "Str []"
          "set_attribute ''audioInputId'' (Str ''mic1'') freshManager",
          THEN conjunct2, THEN mp, THEN conjunct2]) simp
  from other stored removed show ?thesis by simp
qed

lemma MediaDevicesManager_Inr:
  "parsePreferences parse (getItem st ''audioInputPreferences'') = Inr a \<Longrightarrow>
   parsePreferences parse (getItem st ''videoInputPreferences'') = Inr b \<Longrightarrow>
   MediaDevicesManager parse st = Inr (managerWith st a b)"
  by (simp add: MediaDevicesManager_def)

text \<open>The constructor returns a manager exactly when neither \<^verbatim>\<open>JSON.parse\<close> throws.\<close>

lemma MediaDevicesManager_returns:
  "(\<exists>m'. MediaDevicesManager parse st = Inr m') \<longleftrightarrow>
   (\<exists>a. parsePreferences parse (getItem st ''audioInputPreferences'') = Inr a) \<and>
   (\<exists>b. parsePreferences parse (getItem st ''videoInputPreferences'') = Inr b)"
  by (auto simp: MediaDevicesManager_def split: sum.splits)

lemma MediaDevicesManager_selection:
  assumes "MediaDevicesManager parse st = Inr m'"
  shows "audioInputId m' =
      (if getItem st ''audioInputId'' = Some (SText LOCAL_STORAGE_NULL_DEVICE_ID)
       then Null else Undefined)"
    and "videoInputId m' =
      (if getItem st ''videoInputId'' = Some (SText LOCAL_STORAGE_NULL_DEVICE_ID)
       then Null else Undefined)"
  using assms
  by (simp_all add: MediaDevicesManager_def managerWith_def split: sum.splits) auto

lemma sentinel_truthy: "truthy (Str LOCAL_STORAGE_NULL_DEVICE_ID)"
  by (simp add: LOCAL_STORAGE_NULL_DEVICE_ID_def)

lemma getItem_storeDeviceId_same:
  assumes "key = ''audioInputId'' \<or> key = ''videoInputId''"
  shows "getItem (storeDeviceId key v st) key =
      (if v = Null then Some (SText LOCAL_STORAGE_NULL_DEVICE_ID)
       else if truthy v then Some (storedOf v) else None)"
proof (cases "v = Null")
  case True
  with assms sentinel_truthy show ?thesis
    by (auto simp: storeDeviceId_def getItem_def setItem_def)
next
  case False
  with assms show ?thesis
    by (auto simp: storeDeviceId_def getItem_def setItem_def removeItem_def)
qed

lemma getItem_storeDeviceId_preferences:
  "getItem (storeDeviceId key v st) ''audioInputPreferences'' = getItem st ''audioInputPreferences''"
  "getItem (storeDeviceId key v st) ''videoInputPreferences'' = getItem st ''videoInputPreferences''"
  by (auto simp: storeDeviceId_def getItem_def setItem_def removeItem_def Let_def)

text \<open>
  \<^bold>\<open>C4.\<close> For a selection key, \<^verbatim>\<open>set(key, null)\<close> writes the sentinel text under
  the key and \<^verbatim>\<open>set(key, s)\<close> writes the string \<open>s\<close> (an empty \<open>s\<close> removes the
  entry). A manager constructed over the resulting store holds \<^verbatim>\<open>null\<close> for the key
  after \<^verbatim>\<open>set(key, null)\<close>. A string does not come back: the constructor reads the
  stored selection only to compare it with the sentinel, so after \<^verbatim>\<open>set(key, s)\<close> the
  new manager holds \<^verbatim>\<open>undefined\<close> for the key, or \<^verbatim>\<open>null\<close> when \<open>s\<close> is the
  sentinel text itself. The constructor returns a manager over the new store exactly
  when it does over the old one, whatever \<^verbatim>\<open>JSON.parse\<close> makes of the stored
  preference texts.
\<close>

theorem selection_reload:
  assumes "key = ''audioInputId'' \<or> key = ''videoInputId''"
  shows "(v = Null \<longrightarrow>
            getItem (browserStorage (set_attribute key v m)) key
              = Some (SText LOCAL_STORAGE_NULL_DEVICE_ID)) \<and>
         (\<forall>s. v = Str s \<longrightarrow>
            getItem (browserStorage (set_attribute key v m)) key
              = (if s = [] then None else Some (SText s))) \<and>
         (\<forall>m'. MediaDevicesManager parse (browserStorage (set_attribute key v m)) = Inr m' \<longrightarrow>
            (v = Null \<longrightarrow> get m' key = Null) \<and>
            (\<forall>s. v = Str s \<longrightarrow>
               get m' key = (if s = LOCAL_STORAGE_NULL_DEVICE_ID then Null else Undefined))) \<and>
         ((\<exists>m'. MediaDevicesManager parse (browserStorage (set_attribute key v m)) = Inr m')
            \<longleftrightarrow> (\<exists>m'. MediaDevicesManager parse (browserStorage m) = Inr m'))"
proof -
  let ?st = "storeDeviceId key v (browserStorage m)"
  have st: "browserStorage (set_attribute key v m) = ?st"
    by (rule browserStorage_set_attribute)
  from assms have written: "getItem ?st key =
      (if v = Null then Some (SText LOCAL_STORAGE_NULL_DEVICE_ID)
       else if truthy v then Some (storedOf v) else None)"
    by (rule getItem_storeDeviceId_same)
  have nonempty: "LOCAL_STORAGE_NULL_DEVICE_ID \<noteq> []"
    by (simp add: LOCAL_STORAGE_NULL_DEVICE_ID_def)
  have sentinel: "v = Null \<longrightarrow> getItem ?st key = Some (SText LOCAL_STORAGE_NULL_DEVICE_ID)"
    unfolding written by simp
  have plain: "\<forall>s. v = Str s \<longrightarrow> getItem ?st key = (if s = [] then None else Some (SText s))"
    unfolding written by simp
  have reload: "(v = Null \<longrightarrow> get m' key = Null) \<and>
      (\<forall>s. v = Str s \<longrightarrow>
         get m' key = (if s = LOCAL_STORAGE_NULL_DEVICE_ID then Null else Undefined))"
    if built: "MediaDevicesManager parse ?st = Inr m'" for m'
  proof -
    from assms have read: "get m' key =
        (if getItem ?st key = Some (SText LOCAL_STORAGE_NULL_DEVICE_ID) then Null else Undefined)"
      using MediaDevicesManager_selection [OF built] by (auto simp: get_def)
    show ?thesis
      unfolding read written using nonempty by auto
  qed
  have returns: "(\<exists>m'. MediaDevicesManager parse ?st = Inr m')
      \<longleftrightarrow> (\<exists>m'. MediaDevicesManager parse (browserStorage m) = Inr m')"
    by (simp only: MediaDevicesManager_returns getItem_storeDeviceId_preferences)
  from sentinel plain reload returns show ?thesis
    unfolding st by blast
qed

theorem selection_reload_witness:
  "getItem (browserStorage (set_attribute ''audioInputId'' Null oddPreferences)) ''audioInputId''
     = Some (SText LOCAL_STORAGE_NULL_DEVICE_ID) \<and>
   get (managerWith (browserStorage (set_attribute ''audioInputId'' Null oddPreferences)) [] [])
      ''audioInputId'' = Null \<and>
   getItem (browserStorage (set_attribute ''videoInputId'' (Str ''cam1'') freshManager))
      ''videoInputId'' = Some (SText ''cam1'') \<and>
   get (managerWith (browserStorage (set_attribute ''videoInputId'' (Str ''cam1'') freshManager)) [] [])
      ''videoInputId'' = Undefined"
proof -
  let ?a = "browserStorage (set_attribute ''audioInputId'' Null oddPreferences)"
  let ?b = "browserStorage (set_attribute ''videoInputId'' (Str ''cam1'') freshManager)"
  have a: "MediaDevicesManager literalParser ?a = Inr (managerWith ?a [] [])"
    by (rule MediaDevicesManager_Inr; code_simp)
  have b: "MediaDevicesManager literalParser ?b = Inr (managerWith ?b [] [])"
    by (rule MediaDevicesManager_Inr; code_simp)
  have c: "''cam1'' \<noteq> LOCAL_STORAGE_NULL_DEVICE_ID" "''cam1'' \<noteq> []"
    by (simp_all add: LOCAL_STORAGE_NULL_DEVICE_ID_def)
  note audio = selection_reload [of "''audioInputId''" Null oddPreferences literalParser]
  note video = selection_reload [of "''videoInputId''" "Str ''cam1''" freshManager literalParser]
  from audio a have "getItem ?a ''audioInputId'' = Some (SText LOCAL_STORAGE_NULL_DEVICE_ID)"
    and "get (managerWith ?a [] []) ''audioInputId'' = Null"
    by blast+
  moreover from video b c have "getItem ?b ''videoInputId'' = Some (SText ''cam1'')"
    and "get (managerWith ?b [] []) ''videoInputId'' = Undefined"
    by auto
  ultimately show ?thesis by blast
qed

theorem selection_reload_counterexample:
  "map_sum id audioInputId
     (MediaDevicesManager literalParser
        (browserStorage (set_attribute ''audioInputId'' (Str ''mic1'') freshManager)))
   = Inr Undefined \<and>
   getItem (browserStorage (set_attribute ''audioInputId'' (Str ''mic1'') freshManager))
     ''audioInputId'' = Some (SText ''mic1'')"
  by code_simp

section \<open>The diff of a pass\<close>

lemma removeFirst_keeps: "x \<in> set xs \<Longrightarrow> \<not> P x \<Longrightarrow> x \<in> set (removeFirst P xs)"
  by (induction xs) auto

lemma devices_removeDevice:
  "devices (removeDevice m r) = removeFirst (\<lambda>oldDevice. sameDevice oldDevice r) (devices m)"
  by (simp add: removeDevice_def Let_def)

lemma removeDevice_frame:
  "preferenceAudioInputList (removeDevice m r) = preferenceAudioInputList m"
  "preferenceVideoInputList (removeDevice m r) = preferenceVideoInputList m"
  "knownDevices (removeDevice m r) = knownDevices m"
  "triggered (removeDevice m r) = triggered m"
  "browserStorage (removeDevice m r) = browserStorage m"
  by (simp_all add: removeDevice_def Let_def)

lemma audioInputId_removeDevice:
  "audioInputId (removeDevice m r) =
     (if kind r = ''audioinput'' \<and> Str (deviceId r) = audioInputId m then Undefined
      else audioInputId m)"
  by (simp add: removeDevice_def Let_def)

lemma videoInputId_removeDevice:
  "videoInputId (removeDevice m r) =
     (if kind r = ''videoinput'' \<and> Str (deviceId r) = videoInputId m then Undefined
      else videoInputId m)"
  by (auto simp: removeDevice_def Let_def)

lemma foldl_removeDevice_frame:
  "preferenceAudioInputList (foldl removeDevice m rs) = preferenceAudioInputList m"
  "preferenceVideoInputList (foldl removeDevice m rs) = preferenceVideoInputList m"
  "knownDevices (foldl removeDevice m rs) = knownDevices m"
  "triggered (foldl removeDevice m rs) = triggered m"
  "browserStorage (foldl removeDevice m rs) = browserStorage m"
  by (induction rs arbitrary: m) (simp_all add: removeDevice_frame)

lemma foldl_removeDevice_keeps:
  "x \<in> set (devices m) \<Longrightarrow> \<forall>r\<in>set rs. \<not> sameDevice x r \<Longrightarrow>
   x \<in> set (devices (foldl removeDevice m rs))"
  by (induction rs arbitrary: m) (simp_all add: devices_removeDevice removeFirst_keeps)

text \<open>The selection once the removed devices are gone: the value that step 5 of the
  pass tests.\<close>

lemma audioInputId_foldl_removeDevice:
  "audioInputId (foldl removeDevice m rs) =
     (if list_ex (\<lambda>r. kind r = ''audioinput'' \<and> Str (deviceId r) = audioInputId m) rs
      then Undefined else audioInputId m)"
  by (induction rs arbitrary: m) (auto simp: audioInputId_removeDevice)

lemma videoInputId_foldl_removeDevice:
  "videoInputId (foldl removeDevice m rs) =
     (if list_ex (\<lambda>r. kind r = ''videoinput'' \<and> Str (deviceId r) = videoInputId m) rs
      then Undefined else videoInputId m)"
  by (induction rs arbitrary: m) (auto simp: videoInputId_removeDevice)

lemma sameDevice_refreshed:
  "sameDevice x u \<Longrightarrow> sameDevice (refreshed u x) d = sameDevice x d"
  "sameDevice x u \<Longrightarrow> sameDevice d (refreshed u x) = sameDevice d x"
  by (auto simp: sameDevice_def refreshed_def)

lemma list_ex_updateFirst:
  "list_ex (\<lambda>x. sameDevice x d) (updateFirst (\<lambda>x. sameDevice x u) (refreshed u) xs)
     = list_ex (\<lambda>x. sameDevice x d) xs"
  by (induction xs) (auto simp: sameDevice_refreshed)

lemma updateDevice_frame:
  assumes "updateDevice m u = Some m'"
  shows "audioInputId m' = audioInputId m" "videoInputId m' = videoInputId m"
    "preferenceAudioInputList m' = preferenceAudioInputList m"
    "preferenceVideoInputList m' = preferenceVideoInputList m"
    "knownDevices m' = knownDevices m" "triggered m' = triggered m"
    "browserStorage m' = browserStorage m"
    "devices m' = updateFirst (\<lambda>x. sameDevice x u) (refreshed u) (devices m)"
  using assms by (auto simp: updateDevice_def split: if_splits)

text \<open>Within a pass \<^verbatim>\<open>_updateDevice\<close> never throws: each updated device has its old
  object in the list.\<close>

lemma updateEach_finished:
  assumes "\<forall>u\<in>set us. list_ex (\<lambda>x. sameDevice x u) (devices m)"
  shows "snd (updateEach m us)"
  using assms
proof (induction us arbitrary: m)
  case Nil
  show ?case by simp
next
  case (Cons u us)
  from Cons.prems have ex: "list_ex (\<lambda>x. sameDevice x u) (devices m)" by simp
  then obtain m' where step: "updateDevice m u = Some m'"
    by (simp add: updateDevice_def)
  have "\<forall>v\<in>set us. list_ex (\<lambda>x. sameDevice x v) (devices m')"
    using Cons.prems by (simp add: updateDevice_frame(8) [OF step] list_ex_updateFirst)
  then have "snd (updateEach m' us)" by (rule Cons.IH)
  with step show ?case by simp
qed

lemma updateEach_frame:
  "audioInputId (fst (updateEach m us)) = audioInputId m"
  "videoInputId (fst (updateEach m us)) = videoInputId m"
  "preferenceAudioInputList (fst (updateEach m us)) = preferenceAudioInputList m"
  "preferenceVideoInputList (fst (updateEach m us)) = preferenceVideoInputList m"
  "knownDevices (fst (updateEach m us)) = knownDevices m"
  "triggered (fst (updateEach m us)) = triggered m"
  "browserStorage (fst (updateEach m us)) = browserStorage m"
  by (induction us arbitrary: m; simp split: option.splits; simp add: updateDevice_frame)+

lemma addDevice_frame:
  "audioInputId (addDevice m d) = audioInputId m"
  "videoInputId (addDevice m d) = videoInputId m"
  "preferenceAudioInputList (addDevice m d) = preferenceAudioInputList m"
  "preferenceVideoInputList (addDevice m d) = preferenceVideoInputList m"
  "triggered (addDevice m d) = triggered m"
  "browserStorage (addDevice m d) = browserStorage m"
  by (simp_all add: addDevice_def Let_def)

lemma foldl_addDevice_frame:
  "audioInputId (foldl addDevice m ds) = audioInputId m"
  "videoInputId (foldl addDevice m ds) = videoInputId m"
  "preferenceAudioInputList (foldl addDevice m ds) = preferenceAudioInputList m"
  "preferenceVideoInputList (foldl addDevice m ds) = preferenceVideoInputList m"
  "triggered (foldl addDevice m ds) = triggered m"
  "browserStorage (foldl addDevice m ds) = browserStorage m"
  by (induction ds arbitrary: m) (simp_all add: addDevice_frame)

lemma populatePreferences_frame:
  "audioInputId (populatePreferences m ds) = audioInputId m"
  "videoInputId (populatePreferences m ds) = videoInputId m"
  "devices (populatePreferences m ds) = devices m"
  "knownDevices (populatePreferences m ds) = knownDevices m"
  "triggered (populatePreferences m ds) = triggered m"
  by (simp_all add: populatePreferences_def populateMediaDevicesPreferences_def Let_def
      split: option.splits)

lemma populatePreferences_lists:
  "preferenceAudioInputList (populatePreferences m ds) =
     appendMissing (preferenceAudioInputList m)
       (map deviceId (filter (\<lambda>d. kind d = ''audioinput'') ds))"
  "preferenceVideoInputList (populatePreferences m ds) =
     appendMissing (preferenceVideoInputList m)
       (map deviceId (filter (\<lambda>d. kind d = ''videoinput'') ds))"
  by (auto simp: populatePreferences_def populateMediaDevicesPreferences_def populateKind_def
      Let_def split: option.splits if_splits)



lemma updated_present_after_removal:
  assumes "u \<in> set (updatedDevices m ds)"
  shows "list_ex (\<lambda>x. sameDevice x u) (devices (foldl removeDevice m (removedDevices m ds)))"
proof -
  from assms obtain old where u: "u \<in> set ds" and old: "old \<in> set (devices m)"
    and same: "sameDevice u old"
    by (auto simp: updatedDevices_def list_ex_iff)
  have "\<not> sameDevice old r" if "r \<in> set (removedDevices m ds)" for r
  proof
    assume "sameDevice old r"
    then have "sameDevice r u"
      using same by (auto simp: sameDevice_def)
    with u that show False
      by (auto simp: removedDevices_def list_ex_iff)
  qed
  with old have "old \<in> set (devices (foldl removeDevice m (removedDevices m ds)))"
    by (simp add: foldl_removeDevice_keeps)
  with same show ?thesis
    by (auto simp: list_ex_iff sameDevice_def)
qed

lemma updateEach_pass_finished:
  "snd (updateEach (foldl removeDevice m (removedDevices m ds)) (updatedDevices m ds))"
  by (rule updateEach_finished) (simp add: updated_present_after_removal)

text \<open>The pass as the composition of its stages.\<close>

lemma processDevices_stages:
  "processDevices m ds =
     (let m3 = foldl addDevice
                 (fst (updateEach (foldl removeDevice m (removedDevices m ds)) (updatedDevices m ds)))
                 (addedDevices m ds);
          m4 = populatePreferences m3 ds;
          m5 = (if audioInputId m4 = Undefined
                   \<or> audioInputId m4 =
                      toJs (getFirstAvailableMediaDevice (devices m) (preferenceAudioInputList m))
                then m4\<lparr> audioInputId :=
                       automaticDefault ''audioinput'' ds (preferenceAudioInputList m4) \<rparr>
                else m4);
          m6 = (if videoInputId m5 = Undefined
                   \<or> videoInputId m5 =
                      toJs (getFirstAvailableMediaDevice (devices m) (preferenceVideoInputList m))
                then m5\<lparr> videoInputId :=
                       automaticDefault ''videoinput'' ds (preferenceVideoInputList m5) \<rparr>
                else m5);
          m7 = (if audioInputId m \<noteq> audioInputId m6
                then trigger ''change:audioInputId'' (audioInputId m6) m6 else m6);
          m8 = (if videoInputId m \<noteq> videoInputId m7
                then trigger ''change:videoInputId'' (videoInputId m7) m7 else m7)
      in (m8, True))"
  using updateEach_pass_finished [of m ds]
  unfolding processDevices_def Let_def
  by (simp add: case_prod_beta)

section \<open>Automatic defaults\<close>

lemma updateDevicesResolved_fields:
  "audioInputId (updateDevicesResolved m e ds) = audioInputId (fst (processDevices m ds))"
  "videoInputId (updateDevicesResolved m e ds) = videoInputId (fst (processDevices m ds))"
  "devices (updateDevicesResolved m e ds) = devices (fst (processDevices m ds))"
  "preferenceAudioInputList (updateDevicesResolved m e ds)
     = preferenceAudioInputList (fst (processDevices m ds))"
  "preferenceVideoInputList (updateDevicesResolved m e ds)
     = preferenceVideoInputList (fst (processDevices m ds))"
  "triggered (updateDevicesResolved m e ds) = triggered (fst (processDevices m ds))"
  "knownDevices (updateDevicesResolved m e ds) = knownDevices (fst (processDevices m ds))"
  by (simp_all add: updateDevicesResolved_def)

lemma currentSelection_audio:
  "audioInputId (foldl removeDevice m rs) = currentSelection ''audioinput'' (audioInputId m) rs"
  by (simp add: audioInputId_foldl_removeDevice currentSelection_def)

lemma currentSelection_video:
  "videoInputId (foldl removeDevice m rs) = currentSelection ''videoinput'' (videoInputId m) rs"
  by (simp add: videoInputId_foldl_removeDevice currentSelection_def)

lemma automaticDefault_cases:
  "automaticDefault k ds l =
     (case getFirstAvailableMediaDevice ds l of
        Some i \<Rightarrow> if i \<noteq> [] then Str i
                  else toJs (map_option deviceId (find (\<lambda>d. kind d = k) ds))
      | None \<Rightarrow> toJs (map_option deviceId (find (\<lambda>d. kind d = k) ds)))"
  by (simp add: automaticDefault_def split: option.splits)

text \<open>The result of a pass in normal form.\<close>

lemma processDevices_result:
  "fst (processDevices m ds) =
     (populated m ds)
       \<lparr> audioInputId := audioAfterPass m ds,
         videoInputId := videoAfterPass m ds,
         triggered := triggered (populated m ds)
           @ (if audioInputId m \<noteq> audioAfterPass m ds
              then [(''change:audioInputId'', audioAfterPass m ds)] else [])
           @ (if videoInputId m \<noteq> videoAfterPass m ds
              then [(''change:videoInputId'', videoAfterPass m ds)] else []) \<rparr>"
proof -
  let ?p = "populated m ds"
  let ?c1 = "audioInputId ?p = Undefined \<or> audioInputId ?p =
      toJs (getFirstAvailableMediaDevice (devices m) (preferenceAudioInputList m))"
  let ?c2 = "videoInputId ?p = Undefined \<or> videoInputId ?p =
      toJs (getFirstAvailableMediaDevice (devices m) (preferenceVideoInputList m))"
  have a: "audioAfterPass m ds =
      (if ?c1 then automaticDefault ''audioinput'' ds (preferenceAudioInputList ?p)
       else audioInputId ?p)"
    by (simp add: audioAfterPass_def recomputed_def)
  have v: "videoAfterPass m ds =
      (if ?c2 then automaticDefault ''videoinput'' ds (preferenceVideoInputList ?p)
       else videoInputId ?p)"
    by (simp add: videoAfterPass_def recomputed_def)
  have stages: "fst (processDevices m ds) =
      (let m5 = (if ?c1 then ?p\<lparr> audioInputId :=
                       automaticDefault ''audioinput'' ds (preferenceAudioInputList ?p) \<rparr>
                 else ?p);
           m6 = (if videoInputId m5 = Undefined \<or> videoInputId m5 =
                      toJs (getFirstAvailableMediaDevice (devices m) (preferenceVideoInputList m))
                 then m5\<lparr> videoInputId :=
                       automaticDefault ''videoinput'' ds (preferenceVideoInputList m5) \<rparr>
                 else m5);
           m7 = (if audioInputId m \<noteq> audioInputId m6
                 then trigger ''change:audioInputId'' (audioInputId m6) m6 else m6);
           m8 = (if videoInputId m \<noteq> videoInputId m7
                 then trigger ''change:videoInputId'' (videoInputId m7) m7 else m7)
       in m8)"
    unfolding processDevices_stages Let_def populated_def fst_conv ..
  show ?thesis
  proof (cases ?c1)
    case c1: True
    show ?thesis
    proof (cases ?c2)
      case c2: True
      show ?thesis
        unfolding stages a v Let_def trigger_def
        using c1 c2 by (simp only: if_True manager.simps) simp
    next
      case c2: False
      show ?thesis
        unfolding stages a v Let_def trigger_def
        using c1 c2 by (simp only: if_True if_False manager.simps) simp
    qed
  next
    case c1: False
    show ?thesis
    proof (cases ?c2)
      case c2: True
      show ?thesis
        unfolding stages a v Let_def trigger_def
        using c1 c2 by (simp only: if_True if_False manager.simps) simp
    next
      case c2: False
      show ?thesis
        unfolding stages a v Let_def trigger_def
        using c1 c2 by (simp only: if_True if_False manager.simps) simp
    qed
  qed
qed

lemma populated_fields:
  "audioInputId (populated m ds)
     = currentSelection ''audioinput'' (audioInputId m) (removedDevices m ds)"
  "videoInputId (populated m ds)
     = currentSelection ''videoinput'' (videoInputId m) (removedDevices m ds)"
  "preferenceAudioInputList (populated m ds) =
     appendMissing (preferenceAudioInputList m)
       (map deviceId (filter (\<lambda>d. kind d = ''audioinput'') ds))"
  "preferenceVideoInputList (populated m ds) =
     appendMissing (preferenceVideoInputList m)
       (map deviceId (filter (\<lambda>d. kind d = ''videoinput'') ds))"
  "triggered (populated m ds) = triggered m"
  by (simp_all add: populated_def populatePreferences_lists populatePreferences_frame
      foldl_addDevice_frame updateEach_frame foldl_removeDevice_frame
      currentSelection_audio currentSelection_video)

lemma pass_fields:
  "audioInputId (updateDevicesResolved m e ds) = audioAfterPass m ds"
  "videoInputId (updateDevicesResolved m e ds) = videoAfterPass m ds"
  "preferenceAudioInputList (updateDevicesResolved m e ds)
     = preferenceAudioInputList (populated m ds)"
  "preferenceVideoInputList (updateDevicesResolved m e ds)
     = preferenceVideoInputList (populated m ds)"
  "devices (updateDevicesResolved m e ds) = devices (populated m ds)"
  "triggered (updateDevicesResolved m e ds) =
     triggered m
       @ (if audioInputId m \<noteq> audioAfterPass m ds
          then [(''change:audioInputId'', audioAfterPass m ds)] else [])
       @ (if videoInputId m \<noteq> videoAfterPass m ds
          then [(''change:videoInputId'', videoAfterPass m ds)] else [])"
  by (simp_all add: updateDevicesResolved_fields processDevices_result populated_fields)

lemma currentSelection_Null: "currentSelection k Null rs = Null"
  by (simp add: currentSelection_def list_ex_iff)

lemma toJs_not_Null: "toJs x \<noteq> Null"
  by (cases x) simp_all

lemma audioAfterPass_sticky:
  "audioAfterPass m ds =
     stickyDefault ''audioinput'' (audioInputId m) (preferenceAudioInputList m)
       (preferenceAudioInputList (populated m ds)) m ds"
  by (simp add: audioAfterPass_def recomputed_def stickyDefault_def Let_def
      populated_fields(1) automaticDefault_cases)

lemma videoAfterPass_sticky:
  "videoAfterPass m ds =
     stickyDefault ''videoinput'' (videoInputId m) (preferenceVideoInputList m)
       (preferenceVideoInputList (populated m ds)) m ds"
  by (simp add: videoAfterPass_def recomputed_def stickyDefault_def Let_def
      populated_fields(2) automaticDefault_cases)

lemma stickyDefault_Null: "stickyDefault k Null oldList newList m ds = Null"
  by (simp add: stickyDefault_def Let_def currentSelection_Null toJs_not_Null [symmetric])

text \<open>
  \<^bold>\<open>C1.\<close> In every pass and for each input kind, the selection is recomputed if and
  only if the value that step 5 finds (the selection, or \<^verbatim>\<open>undefined\<close> once step 1 has
  removed the selected device) is \<^verbatim>\<open>undefined\<close> or equals the first identifier of
  the kind's preference list that is present in the previous device list: the result of
  \<^verbatim>\<open>getFirstAvailableMediaDevice\<close> for the previous list, not the previous automatic
  default with its fallback to the first device. The recomputed value is the first
  identifier of the populated preference list that is present in the fresh list,
  provided that identifier is not the empty string; otherwise the identifier of the
  first fresh device of the kind, else \<^verbatim>\<open>undefined\<close>. Any other value is kept, and
  \<^verbatim>\<open>null\<close> is kept by the whole pass.
\<close>

theorem sticky_default_recompute:
  "audioInputId (updateDevicesResolved m e ds) =
     stickyDefault ''audioinput'' (audioInputId m) (preferenceAudioInputList m)
       (preferenceAudioInputList (updateDevicesResolved m e ds)) m ds \<and>
   videoInputId (updateDevicesResolved m e ds) =
     stickyDefault ''videoinput'' (videoInputId m) (preferenceVideoInputList m)
       (preferenceVideoInputList (updateDevicesResolved m e ds)) m ds \<and>
   (audioInputId m = Null \<longrightarrow> audioInputId (updateDevicesResolved m e ds) = Null) \<and>
   (videoInputId m = Null \<longrightarrow> videoInputId (updateDevicesResolved m e ds) = Null)"
proof -
  have a: "audioInputId (updateDevicesResolved m e ds) =
     stickyDefault ''audioinput'' (audioInputId m) (preferenceAudioInputList m)
       (preferenceAudioInputList (updateDevicesResolved m e ds)) m ds"
    by (simp only: pass_fields audioAfterPass_sticky)
  have v: "videoInputId (updateDevicesResolved m e ds) =
     stickyDefault ''videoinput'' (videoInputId m) (preferenceVideoInputList m)
       (preferenceVideoInputList (updateDevicesResolved m e ds)) m ds"
    by (simp only: pass_fields videoAfterPass_sticky)
  have an: "audioInputId (updateDevicesResolved m e ds) = Null" if "audioInputId m = Null"
    using that by (simp only: a stickyDefault_Null)
  have vn: "videoInputId (updateDevicesResolved m e ds) = Null" if "videoInputId m = Null"
    using that by (simp only: v stickyDefault_Null)
  from a v an vn show ?thesis by blast
qed

theorem sticky_default_recompute_witness:
  "audioInputId (updateDevicesResolved returningManager 0 microphoneGranted) = Str ''mic1'' \<and>
   audioInputId (updateDevicesResolved disabledManager 0 microphoneGranted) = Null \<and>
   videoInputId (updateDevicesResolved disabledManager 0 microphoneGranted) = Null"
proof -
  have computed: "stickyDefault ''audioinput'' (audioInputId returningManager)
       (preferenceAudioInputList returningManager)
       (preferenceAudioInputList (updateDevicesResolved returningManager 0 microphoneGranted))
       returningManager microphoneGranted = Str ''mic1''"
    by code_simp
  have disabled: "audioInputId disabledManager = Null" "videoInputId disabledManager = Null"
    by (simp_all add: disabledManager_def)
  note pass = sticky_default_recompute [of returningManager 0 microphoneGranted]
  note kept = sticky_default_recompute [of disabledManager 0 microphoneGranted]
  from pass computed
  have "audioInputId (updateDevicesResolved returningManager 0 microphoneGranted) = Str ''mic1''"
    by (simp only:)
  moreover from kept disabled
  have "audioInputId (updateDevicesResolved disabledManager 0 microphoneGranted) = Null"
    and "videoInputId (updateDevicesResolved disabledManager 0 microphoneGranted) = Null"
    by blast+
  ultimately show ?thesis by blast
qed

theorem sticky_default_recompute_counterexample:
  "audioInputId returningManager = Undefined \<and>
   audioInputId (updateDevicesResolved returningManager 0 emptyIdentifierLast) = Str ''mic1'' \<and>
   preferenceAudioInputList (updateDevicesResolved returningManager 0 emptyIdentifierLast)
     = [[], ''mic1''] \<and>
   specifiedDefault ''audioinput'' emptyIdentifierLast
     (preferenceAudioInputList (updateDevicesResolved returningManager 0 emptyIdentifierLast))
     = Str [] \<and>
   audioInputId (updateDevicesResolved returningManager 0 microphoneGranted) = Str ''mic1'' \<and>
   automaticDefault ''audioinput''
     (devices (updateDevicesResolved returningManager 0 microphoneGranted))
     (preferenceAudioInputList (updateDevicesResolved returningManager 0 microphoneGranted))
     = Str ''mic1'' \<and>
   getFirstAvailableMediaDevice
     (devices (updateDevicesResolved returningManager 0 microphoneGranted))
     (preferenceAudioInputList (updateDevicesResolved returningManager 0 microphoneGranted))
     = Some [] \<and>
   audioInputId (updateDevicesResolved
       (updateDevicesResolved returningManager 0 microphoneGranted) 1 headsetFirst) = Str ''mic1'' \<and>
   automaticDefault ''audioinput'' headsetFirst
     (preferenceAudioInputList (updateDevicesResolved
       (updateDevicesResolved returningManager 0 microphoneGranted) 1 headsetFirst))
     = Str ''headset''"
  by code_simp

section \<open>Fallback labels\<close>

lemma addedRecord_known:
  assumes "map_of known (knownDeviceKey d) = Some knownDevice"
  shows "fallbackLabel (addedRecord known d) = fallbackLabel knownDevice"
    and "label (addedRecord known d) = (if label d = [] then label knownDevice else label d)"
  using assms by (simp_all add: addedRecord_def knownDeviceKey_def Let_def)

lemma addedRecord_unknown:
  assumes "map_of known (knownDeviceKey d) = None"
  shows "fallbackLabel (addedRecord known d) =
     (if deviceId d = ''default'' \<or> deviceId d = [] then Some ''Default''
      else if kind d = ''audioinput'' then
        Some (''Microphone '' @ showNat (knownCount ''audioinput'' known + 1))
      else if kind d = ''videoinput'' then
        Some (''Camera '' @ showNat (knownCount ''videoinput'' known + 1))
      else if kind d = ''audiooutput'' then
        Some (''Speaker '' @ showNat (knownCount ''audiooutput'' known + 1))
      else None)"
  using assms
  by (simp add: addedRecord_def knownDeviceKey_def Let_def newFallbackLabel_def t_number_def)

lemma devices_addDevice:
  "devices (addDevice m d) = devices m @ [addedRecord (knownDevices m) d]"
  by (simp add: addDevice_def Let_def)

text \<open>
  \<^bold>\<open>C3.\<close> \<^verbatim>\<open>_addDevice\<close> appends one record to the device list. For a device
  without a cache entry its fallback label is ``Default'' if the identifier is
  \<^verbatim>\<open>"default"\<close> or empty, and otherwise ``Microphone \<open>N\<close>'', ``Camera \<open>N\<close>'' or
  ``Speaker \<open>N\<close>'' by kind, where \<open>N\<close> is one more than the number of cached
  devices of that kind whose identifier is not the empty string (a cached
  \<^verbatim>\<open>"default"\<close> device counts); a device of another kind gets no fallback label.
  For a device with a cache entry the fallback label of the entry is taken as it is, and
  the label of the entry exactly when the fresh label is empty.
\<close>

theorem fallback_label_assignment:
  "devices (addDevice m d) = devices m @ [addedRecord (knownDevices m) d] \<and>
   (map_of (knownDevices m) (kind d @ ''-'' @ deviceId d) = None \<longrightarrow>
      fallbackLabel (addedRecord (knownDevices m) d) =
        (let n = length (filter (\<lambda>known. kind known = kind d \<and> deviceId known \<noteq> [])
                          (map snd (knownDevices m))) + 1
         in if deviceId d = ''default'' \<or> deviceId d = [] then Some ''Default''
            else if kind d = ''audioinput'' then Some (''Microphone '' @ showNat n)
            else if kind d = ''videoinput'' then Some (''Camera '' @ showNat n)
            else if kind d = ''audiooutput'' then Some (''Speaker '' @ showNat n)
            else None)) \<and>
   (\<forall>knownDevice. map_of (knownDevices m) (kind d @ ''-'' @ deviceId d) = Some knownDevice \<longrightarrow>
      fallbackLabel (addedRecord (knownDevices m) d) = fallbackLabel knownDevice \<and>
      label (addedRecord (knownDevices m) d) =
        (if label d = [] then label knownDevice else label d))"
proof -
  have "fallbackLabel (addedRecord (knownDevices m) d) =
        (let n = length (filter (\<lambda>known. kind known = kind d \<and> deviceId known \<noteq> [])
                          (map snd (knownDevices m))) + 1
         in if deviceId d = ''default'' \<or> deviceId d = [] then Some ''Default''
            else if kind d = ''audioinput'' then Some (''Microphone '' @ showNat n)
            else if kind d = ''videoinput'' then Some (''Camera '' @ showNat n)
            else if kind d = ''audiooutput'' then Some (''Speaker '' @ showNat n)
            else None)"
    if "map_of (knownDevices m) (kind d @ ''-'' @ deviceId d) = None"
    using that
    by (simp add: addedRecord_unknown knownDeviceKey_def knownCount_def Let_def)
  moreover have "fallbackLabel (addedRecord (knownDevices m) d) = fallbackLabel knownDevice \<and>
      label (addedRecord (knownDevices m) d) =
        (if label d = [] then label knownDevice else label d)"
    if "map_of (knownDevices m) (kind d @ ''-'' @ deviceId d) = Some knownDevice" for knownDevice
    using that
    by (simp add: addedRecord_known knownDeviceKey_def)
  ultimately show ?thesis
    by (simp add: devices_addDevice)
qed

theorem fallback_label_assignment_witness:
  "fallbackLabel (addedRecord (knownDevices freshManager) (enumerated ''mic1'' ''audioinput'' []))
     = Some ''Microphone 1'' \<and>
   fallbackLabel (addedRecord
       (knownDevices (addDevice freshManager (enumerated ''mic1'' ''audioinput'' [])))
       (enumerated ''mic1'' ''audioinput'' ''Built-in microphone'')) = Some ''Microphone 1'' \<and>
   label (addedRecord
       (knownDevices (addDevice freshManager (enumerated ''mic1'' ''audioinput'' [])))
       (enumerated ''mic1'' ''audioinput'' ''Built-in microphone'')) = ''Built-in microphone''"
proof -
  let ?mic = "enumerated ''mic1'' ''audioinput'' []"
  let ?named = "enumerated ''mic1'' ''audioinput'' ''Built-in microphone''"
  let ?seen = "addDevice freshManager ?mic"
  have unknown: "map_of (knownDevices freshManager) (kind ?mic @ ''-'' @ deviceId ?mic) = None"
    by code_simp
  have known: "map_of (knownDevices ?seen) (kind ?named @ ''-'' @ deviceId ?named)
      = Some (addedRecord (knownDevices freshManager) ?mic)"
    by code_simp
  have number: "(let n = length (filter (\<lambda>known. kind known = kind ?mic \<and> deviceId known \<noteq> [])
                          (map snd (knownDevices freshManager))) + 1
         in if deviceId ?mic = ''default'' \<or> deviceId ?mic = [] then Some ''Default''
            else if kind ?mic = ''audioinput'' then Some (''Microphone '' @ showNat n)
            else if kind ?mic = ''videoinput'' then Some (''Camera '' @ showNat n)
            else if kind ?mic = ''audiooutput'' then Some (''Speaker '' @ showNat n)
            else None) = Some ''Microphone 1''"
    by code_simp
  have cached: "fallbackLabel (addedRecord (knownDevices freshManager) ?mic) = Some ''Microphone 1''"
    "label (addedRecord (knownDevices freshManager) ?mic) = []" "label ?named = ''Built-in microphone''"
    by code_simp+
  from fallback_label_assignment [of freshManager ?mic] unknown
  have first: "fallbackLabel (addedRecord (knownDevices freshManager) ?mic) = Some ''Microphone 1''"
    unfolding number by blast
  from fallback_label_assignment [of ?seen ?named] known
  have "fallbackLabel (addedRecord (knownDevices ?seen) ?named)
        = fallbackLabel (addedRecord (knownDevices freshManager) ?mic)"
    and "label (addedRecord (knownDevices ?seen) ?named) =
        (if label ?named = [] then label (addedRecord (knownDevices freshManager) ?mic)
         else label ?named)"
    by blast+
  with cached first show ?thesis
    by simp
qed

text \<open>The first real microphone after the default one is numbered 2, where the count of
  known devices that are not a sentinel, plus one, is 1.\<close>

theorem fallback_label_counts_default:
  "map fallbackLabel (devices (updateDevicesResolved freshManager 0 defaultAndMicrophone))
     = [Some ''Default'', Some ''Microphone 2''] \<and>
   map_of (knownDevices (addDevice freshManager (enumerated ''default'' ''audioinput'' [])))
     (knownDeviceKey (enumerated ''mic1'' ''audioinput'' [])) = None \<and>
   fallbackLabel (addedRecord
       (knownDevices (addDevice freshManager (enumerated ''default'' ''audioinput'' [])))
       (enumerated ''mic1'' ''audioinput'' [])) = Some ''Microphone 2'' \<and>
   specifiedNumber ''audioinput''
       (knownDevices (addDevice freshManager (enumerated ''default'' ''audioinput'' []))) = 1"
  by code_simp

section \<open>Enumerations in flight\<close>

text \<open>
  \<^bold>\<open>C2.\<close> Every call of \<^verbatim>\<open>_updateDevices\<close> issues a hardware
  \<^verbatim>\<open>enumerateDevices()\<close> call, whether or not an enumeration is in flight: the
  number of enumerations in flight grows by one and the marker is overwritten with the
  new one. Nothing is shared between callers.
\<close>

theorem updateDevices_always_enumerates:
  "enumerateDevicesCalls (updateDevices m) = enumerateDevicesCalls m + 1 \<and>
   enumerationsInFlight (updateDevices m) = enumerationsInFlight m @ [enumerateDevicesCalls m] \<and>
   pendingEnumerateDevicesPromise (updateDevices m) = Some (enumerateDevicesCalls m)"
  by (simp add: updateDevices_def Let_def)

theorem updateDevices_always_enumerates_counterexample:
  "pendingEnumerateDevicesPromise (updateDevices freshManager) = Some 0 \<and>
   enumerationsInFlight (updateDevices freshManager) = [0] \<and>
   enumerateDevicesCalls (updateDevices (updateDevices freshManager))
     = enumerateDevicesCalls (updateDevices freshManager) + 1 \<and>
   enumerationsInFlight (updateDevices (updateDevices freshManager)) = [0, 1]"
  by code_simp

section \<open>Constraint resolution\<close>

lemma resolveKind_specified: "specified (deviceIdOf k) \<Longrightarrow> resolveKind sel k = k"
  by (simp add: resolveKind_def)

lemma resolveKind_not_requested: "\<not> requested k \<Longrightarrow> resolveKind sel k = k"
  by (simp add: resolveKind_def)

lemma resolveKind_injected:
  assumes "requested k" "\<not> specified (deviceIdOf k)" "s \<noteq> []"
  shows "resolveKind (Str s) k =
     Object \<lparr> constraintDeviceId = Some (Params (Str s) Undefined),
              otherConstraints = (case k of Object obj \<Rightarrow> otherConstraints obj | _ \<Rightarrow> []) \<rparr>"
  using assms by (cases k) (simp_all add: resolveKind_def)

lemma resolveKind_disabled:
  "requested k \<Longrightarrow> \<not> specified (deviceIdOf k) \<Longrightarrow> resolveKind Null k = Boolean False"
  by (simp add: resolveKind_def)

lemma resolveKind_unset:
  "\<not> truthy sel \<Longrightarrow> sel \<noteq> Null \<Longrightarrow> resolveKind sel k = k"
  by (simp add: resolveKind_def)

text \<open>
  \<^bold>\<open>C5.\<close> For each kind of the constraints given to an acquisition: a constraint
  with a device identifier (a non-empty string or an object) is left as it is, whatever
  the selection; a requested kind without one gets the selection as an exact
  \<^verbatim>\<open>deviceId\<close> when the selection is a non-empty string, is set to \<^verbatim>\<open>false\<close> when
  the selection is \<^verbatim>\<open>null\<close>, and is left as it is when the selection is the
  empty string or \<^verbatim>\<open>undefined\<close>; a kind that is not requested is left as it is.
\<close>

theorem constraint_resolution:
  "audio (resolveConstraints m c) = resolveKind (audioInputId m) (audio c) \<and>
   video (resolveConstraints m c) = resolveKind (videoInputId m) (video c) \<and>
   (specified (deviceIdOf k) \<longrightarrow> resolveKind sel k = k) \<and>
   (requested k \<and> \<not> specified (deviceIdOf k) \<and> s \<noteq> [] \<longrightarrow>
      resolveKind (Str s) k =
        Object \<lparr> constraintDeviceId = Some (Params (Str s) Undefined),
                 otherConstraints = (case k of Object obj \<Rightarrow> otherConstraints obj | _ \<Rightarrow> []) \<rparr>) \<and>
   (requested k \<and> \<not> specified (deviceIdOf k) \<longrightarrow> resolveKind Null k = Boolean False) \<and>
   (requested k \<and> \<not> specified (deviceIdOf k) \<longrightarrow>
      resolveKind (Str []) k = k \<and> resolveKind Undefined k = k) \<and>
   (\<not> requested k \<longrightarrow> resolveKind sel k = k)"
  by (simp add: resolveConstraints_def resolveKind_specified resolveKind_injected
      resolveKind_disabled resolveKind_not_requested resolveKind_unset)

theorem constraint_resolution_witness:
  "resolveKind (Str ''mic1'') (audio plainMic2) = audio plainMic2 \<and>
   resolveKind (Str ''cam1'') (Boolean True) =
     Object \<lparr> constraintDeviceId = Some (Params (Str ''cam1'') Undefined),
              otherConstraints = [] \<rparr> \<and>
   resolveKind Null (Boolean True) = Boolean False \<and>
   resolveKind (Str []) (video echoOnly) = video echoOnly \<and>
   resolveKind Undefined (video echoOnly) = video echoOnly \<and>
   resolveKind Null Absent = Absent"
proof -
  have given: "specified (deviceIdOf (audio plainMic2))"
    by code_simp
  have wanted: "requested (Boolean True) \<and> \<not> specified (deviceIdOf (Boolean True))"
    by simp
  have open_object: "requested (video echoOnly) \<and> \<not> specified (deviceIdOf (video echoOnly))"
    by code_simp
  have "resolveKind (Str ''mic1'') (audio plainMic2) = audio plainMic2"
    by (rule constraint_resolution [of freshManager plainMic2 "audio plainMic2" "Str ''mic1''" "''mic1''",
          THEN conjunct2, THEN conjunct2, THEN conjunct1, THEN mp]) (rule given)
  moreover have "resolveKind (Str ''cam1'') (Boolean True) =
     Object \<lparr> constraintDeviceId = Some (Params (Str ''cam1'') Undefined), otherConstraints = [] \<rparr>"
    using constraint_resolution [of freshManager anyVideo "Boolean True" Null "''cam1''"] wanted
    by simp
  moreover have "resolveKind Null (Boolean True) = Boolean False"
    using constraint_resolution [of freshManager anyVideo "Boolean True" Null "''cam1''"] wanted
    by simp
  moreover have "resolveKind (Str []) (video echoOnly) = video echoOnly \<and>
      resolveKind Undefined (video echoOnly) = video echoOnly"
    by (rule constraint_resolution [of freshManager echoOnly "video echoOnly" Null "''cam1''",
          THEN conjunct2, THEN conjunct2, THEN conjunct2, THEN conjunct2, THEN conjunct2,
          THEN conjunct1, THEN mp]) (rule open_object)
  moreover have "resolveKind Null Absent = Absent"
    using constraint_resolution [of freshManager anyVideo Absent Null "''cam1''"]
    by simp
  ultimately show ?thesis by blast
qed

theorem constraint_resolution_counterexample:
  "audioInputId disabledManager = Null \<and>
   audio (resolveConstraints disabledManager plainMic2) = audio plainMic2 \<and>
   video (resolveConstraints (freshManager\<lparr> videoInputId := Str [] \<rparr>) anyVideo) = Boolean True \<and>
   video (resolveConstraints (freshManager\<lparr> videoInputId := Str [] \<rparr>) echoOnly) = video echoOnly"
  by code_simp

section \<open>Failing acquisitions\<close>

text \<open>
  \<^bold>\<open>C8.\<close> Where \<^verbatim>\<open>isSupported()\<close> is false, \<^verbatim>\<open>getUserMedia\<close> is rejected with
  the \<^verbatim>\<open>NotSupportedError\<close> and the manager is as before: no enumeration was asked
  for, no stream was requested, nothing else changed.
\<close>

theorem unsupported_fails_fast:
  assumes "\<not> isSupported (navigator env)"
  shows "getUserMedia env settled m c = (Inl notSupportedError, m) \<and>
         errorName notSupportedError = ''NotSupportedError'' \<and>
         enumerateDevicesCalls (snd (getUserMedia env settled m c)) = enumerateDevicesCalls m \<and>
         getUserMediaCalls (snd (getUserMedia env settled m c)) = getUserMediaCalls m"
  using assms by (simp add: getUserMedia_def notSupportedError_def)

theorem unsupported_fails_fast_witness:
  "getUserMedia unsupported None oneCam1Track exactCam2 = (Inl notSupportedError, oneCam1Track)"
proof -
  have "\<not> isSupported (navigator unsupported)"
    by code_simp
  from unsupported_fails_fast [OF this] show ?thesis
    by blast
qed

lemma getUserMediaInternal_rejected:
  assumes "hardware env (getUserMediaCalls m) (resolveConstraints m c) = Inl error"
  shows "fst (getUserMediaInternal env m c) = Inl error"
    and "enumerateDevicesCalls (fst (snd (getUserMediaInternal env m c)))
           = enumerateDevicesCalls m + 1"
    and "getUserMediaCalls (fst (snd (getUserMediaInternal env m c))) = getUserMediaCalls m + 1"
  using assms by (simp_all add: getUserMediaInternal_def Let_def updateDevices_def)

text \<open>Without a pending enumeration a rejection of the hardware reaches the caller as it
  is, after one request and the start of one enumeration.\<close>

lemma rejection_without_pending:
  assumes "isSupported (navigator env)" and "pendingEnumerateDevicesPromise m = None"
    and "hardware env (getUserMediaCalls m) (resolveConstraints m c) = Inl error"
  shows "fst (getUserMedia env settled m c) = Inl error"
    and "getUserMediaCalls (snd (getUserMedia env settled m c)) = getUserMediaCalls m + 1"
    and "enumerateDevicesCalls (snd (getUserMedia env settled m c)) = enumerateDevicesCalls m + 1"
  using assms getUserMediaInternal_rejected [OF assms(3)]
  by (simp_all add: getUserMedia_def case_prod_beta)

text \<open>
  \<^bold>\<open>C7.\<close> With an enumeration pending, a rejected hardware request is requested
  again: the camera is busy at the first request and free at the second, and the caller
  gets the stream of the second request instead of the error of the first. Without a
  pending enumeration the same rejection reaches the caller after one request.
\<close>

theorem rejection_retried_when_pending:
  "pendingEnumerateDevicesPromise (updateDevices freshManager) = Some 0 \<and>
   fst (getUserMedia busyOnce (Some []) (updateDevices freshManager) exactCam2)
     = Inr \<lparr> getTracks = [liveTrack 11 ''video'' ''cam2''] \<rparr> \<and>
   getUserMediaCalls (snd (getUserMedia busyOnce (Some []) (updateDevices freshManager) exactCam2))
     = 2 \<and>
   fst (getUserMedia busyOnce None freshManager exactCam2) = Inl busyError \<and>
   getUserMediaCalls (snd (getUserMedia busyOnce None freshManager exactCam2)) = 1 \<and>
   enumerateDevicesCalls (snd (getUserMedia busyOnce None freshManager exactCam2)) = 1"
  by code_simp

section \<open>Conflicting tracks\<close>

lemma hits_stopped: "hits c (t\<lparr> stopped := b \<rparr>) = hits c t"
  by (simp add: hits_def incompatible_def split: option.splits)

lemma stopIfIncompatible_silent:
  "stopIfIncompatible False c t ts =
     (if hits c t
      then map (\<lambda>x. if trackId x = trackId t then x\<lparr> stopped := True \<rparr> else x) ts
      else ts)"
  by (simp add: stopIfIncompatible_def stopTrack_def hits_def Let_def comp_def)

lemma silent_step:
  assumes "k < length ts"
  shows "length (stopIfIncompatible False c (ts ! k) ts) = length ts"
    and "map trackId (stopIfIncompatible False c (ts ! k) ts) = map trackId ts"
    and "\<forall>i<length ts. hits c (stopIfIncompatible False c (ts ! k) ts ! i) = hits c (ts ! i)"
    and "\<forall>i<length ts. stopped (ts ! i) \<longrightarrow> stopped (stopIfIncompatible False c (ts ! k) ts ! i)"
    and "hits c (ts ! k) \<longrightarrow> stopped (stopIfIncompatible False c (ts ! k) ts ! k)"
  using assms by (simp_all add: stopIfIncompatible_silent comp_def hits_stopped)

text \<open>Where \<^verbatim>\<open>stop()\<close> dispatches nothing, the \<^verbatim>\<open>forEach\<close> visits every track: the
  list keeps its tracks in their places, and each track that is incompatible with the
  constraints is stopped.\<close>

lemma forEachTrack_silent:
  assumes "len = length ts"
  shows "map trackId (forEachTrack (stopIfIncompatible False c) k len ts) = map trackId ts \<and>
    (\<forall>i<length ts. (stopped (ts ! i) \<or> (k \<le> i \<and> hits c (ts ! i))) \<longrightarrow>
       stopped (forEachTrack (stopIfIncompatible False c) k len ts ! i))"
  using assms
proof (induction "stopIfIncompatible False c" k len ts rule: forEachTrack.induct)
  case (1 k len ts)
  show ?case
  proof (cases "k < len")
    case False
    with "1.prems" show ?thesis
      by (subst forEachTrack.simps, subst (2) forEachTrack.simps) auto
  next
    case True
    let ?ts' = "stopIfIncompatible False c (ts ! k) ts"
    from True "1.prems" have k: "k < length ts" by simp
    note step = silent_step [OF k, of c]
    from True k have unfold: "forEachTrack (stopIfIncompatible False c) k len ts
        = forEachTrack (stopIfIncompatible False c) (k + 1) len ?ts'"
      by (subst forEachTrack.simps) simp
    have len': "len = length ?ts'"
      using "1.prems" step(1) by simp
    from "1.hyps" [OF True] k len'
    have IH: "map trackId (forEachTrack (stopIfIncompatible False c) (k + 1) len ?ts')
          = map trackId ?ts' \<and>
        (\<forall>i<length ?ts'. (stopped (?ts' ! i) \<or> (k + 1 \<le> i \<and> hits c (?ts' ! i))) \<longrightarrow>
           stopped (forEachTrack (stopIfIncompatible False c) (k + 1) len ?ts' ! i))"
      by simp
    have "stopped (forEachTrack (stopIfIncompatible False c) (k + 1) len ?ts' ! i)"
      if i: "i < length ts" and hit: "stopped (ts ! i) \<or> (k \<le> i \<and> hits c (ts ! i))" for i
    proof -
      have "stopped (?ts' ! i) \<or> (k + 1 \<le> i \<and> hits c (?ts' ! i))"
      proof (cases "i = k")
        case True
        with hit step(4,5) i show ?thesis by blast
      next
        case False
        with hit step(3,4) i show ?thesis by auto
      qed
      with IH i step(1) show ?thesis by auto
    qed
    with IH step(2) show ?thesis
      unfolding unfold by simp
  qed
qed

lemma stopIncompatibleTracks_silent:
  "map trackId (stopIncompatibleTracks False c ts) = map trackId ts"
  "i < length ts \<Longrightarrow> hits c (ts ! i) \<Longrightarrow> stopped (stopIncompatibleTracks False c ts ! i)"
  using forEachTrack_silent [of "length ts" ts c 0]
  by (simp_all add: stopIncompatibleTracks_def)

lemma tracks_registerStream: "tracks (registerStream m s) = tracks m @ getTracks s"
proof -
  have "tracks (foldl registerTrack m ts) = tracks m @ ts" for ts
    by (induction ts arbitrary: m) (simp_all add: registerTrack_def)
  then show ?thesis by (simp add: registerStream_def)
qed

lemma tracks_updateSelectedDevices:
  "tracks (updateSelectedDevicesFromGetUserMediaResult m s) = tracks m"
  by (simp add: updateSelectedDevicesFromGetUserMediaResult_def updateSelectedDevice_def
      set_attribute_def assignAttribute_def trigger_def Let_def
      split: list.splits option.splits)

text \<open>After a successful acquisition the set holds the tracks it held, stopped or not, and
  behind them the new ones: the acquisition itself removes nothing.\<close>

lemma tracks_after_success:
  assumes "hardware env (getUserMediaCalls m) (resolveConstraints m c) = Inr s"
  shows "tracks (fst (snd (getUserMediaInternal env m c))) =
     stopIncompatibleTracks (dispatchesEnded env) (resolveConstraints m c) (tracks m) @ getTracks s"
  using assms
  by (simp add: getUserMediaInternal_def Let_def updateDevices_def tracks_registerStream
      tracks_updateSelectedDevices)

text \<open>
  \<^bold>\<open>C6.\<close> The acquisition of the second camera with two tracks of the first camera
  in the active track set. Where \<^verbatim>\<open>stop()\<close> dispatches \<^verbatim>\<open>ended\<close>, the listener
  takes the first track out of the list inside the \<^verbatim>\<open>forEach\<close>, the second track
  moves to the index just visited and is passed over: it is not stopped and stays in
  the set. Where \<^verbatim>\<open>stop()\<close> dispatches nothing, both tracks are stopped and both
  stay in the set, as does the one track of the conflict scenario.
\<close>

theorem conflicting_tracks_evaluated:
  "map (\<lambda>t. (trackId t, stopped t))
     (tracks (fst (snd (getUserMediaInternal (cam2Hardware True) twoCam1Tracks exactCam2))))
     = [(2, False), (10, False)] \<and>
   map (\<lambda>t. (trackId t, stopped t))
     (tracks (fst (snd (getUserMediaInternal (cam2Hardware False) twoCam1Tracks exactCam2))))
     = [(1, True), (2, True), (10, False)] \<and>
   map (\<lambda>t. (trackId t, stopped t))
     (tracks (fst (snd (getUserMediaInternal (cam2Hardware False) oneCam1Track exactCam2))))
     = [(1, True), (10, False)] \<and>
   map (\<lambda>t. (trackId t, stopped t))
     (tracks (fst (snd (getUserMediaInternal (cam2Hardware True) oneCam1Track exactCam2))))
     = [(10, False)]"
  by code_simp

section \<open>A second pass over the same enumeration\<close>

subsection \<open>Removal\<close>





subsection \<open>Updates\<close>















subsection \<open>Additions\<close>









subsection \<open>The device list after a pass\<close>








subsection \<open>The second pass\<close>













subsection \<open>The empty selection through a pass\<close>




lemma constructed_empty_selection:
  assumes "MediaDevicesManager parse st = Inr m"
  shows "emptySelectionAvailable (audioInputId m) (devices m) (preferenceAudioInputList m)"
    and "emptySelectionAvailable (videoInputId m) (devices m) (preferenceVideoInputList m)"
  using MediaDevicesManager_selection [OF assms]
  by (simp_all add: emptySelectionAvailable_def)




end
